theory Spec2Isabelle
  imports Complex_Main "HOL-Library.Signed_Division"
begin

section \<open>Numbers, vectors and loops\<close>

text \<open>
  The generator of \<^verbatim>\<open>src/Util/MeshGenerator.cpp\<close> works on \<^verbatim>\<open>int\<close> counters and
  indices and on \<^verbatim>\<open>double\<close>/\<^verbatim>\<open>float\<close> coordinates.  Counters and indices are
  modelled by \<^typ>\<open>int\<close>; the C++ operators \<^verbatim>\<open>/\<close> and \<^verbatim>\<open>%\<close> on \<^verbatim>\<open>int\<close> truncate
  towards zero and are written \<open>sdiv\<close> and \<open>smod\<close>.  The products of division
  numbers that occur stay far below \<open>2^31\<close> for every vertex array that fits
  into memory, so no wrap-around is written out.  Coordinates are modelled by
  \<^typ>\<open>real\<close>: rounding to \<^verbatim>\<open>double\<close> and the narrowing to \<^verbatim>\<open>float\<close> are not
  part of the model, and \<open>x / 0 = 0\<close> stands where the floating-point unit
  yields an infinity or a NaN.  Where a \<^verbatim>\<open>double\<close> is converted to \<^verbatim>\<open>int\<close> (the
  ring count of the torus) the model truncates the real number; the truncated
  \<^verbatim>\<open>double\<close> can be smaller by one when rounding leaves the quotient just below an
  integer.

  All generators and the texture coordinate builders they call are modelled;
  \<^verbatim>\<open>generateExtrusionLineSet\<close> and \<^verbatim>\<open>generateTextureCoordinateForIndexedFaceSet\<close>,
  which no generator calls, are not.
\<close>

type_synonym Vector3 = "real \<times> real \<times> real"
type_synonym Vector2 = "real \<times> real"
type_synonym Matrix3 = "Vector3 \<times> Vector3 \<times> Vector3"  \<comment> \<open>the three columns\<close>

definition vx :: "Vector3 \<Rightarrow> real" where "vx v = fst v"
definition vy :: "Vector3 \<Rightarrow> real" where "vy v = fst (snd v)"
definition vz :: "Vector3 \<Rightarrow> real" where "vz v = snd (snd v)"

definition vnorm :: "Vector3 \<Rightarrow> real" where
  "vnorm v = sqrt (vx v * vx v + vy v * vy v + vz v * vz v)"

definition vsub :: "Vector3 \<Rightarrow> Vector3 \<Rightarrow> Vector3" where
  "vsub a b = (vx a - vx b, vy a - vy b, vz a - vz b)"

definition vadd :: "Vector3 \<Rightarrow> Vector3 \<Rightarrow> Vector3" where
  "vadd a b = (vx a + vx b, vy a + vy b, vz a + vz b)"

definition vscale :: "real \<Rightarrow> Vector3 \<Rightarrow> Vector3" where
  "vscale k a = (k * vx a, k * vy a, k * vz a)"

definition vdot :: "Vector3 \<Rightarrow> Vector3 \<Rightarrow> real" where
  "vdot a b = vx a * vx b + vy a * vy b + vz a * vz b"

definition vcross :: "Vector3 \<Rightarrow> Vector3 \<Rightarrow> Vector3" where
  "vcross a b = (vy a * vz b - vz a * vy b, vz a * vx b - vx a * vz b, vx a * vy b - vy a * vx b)"

text \<open>Eigen's \<^verbatim>\<open>normalized()\<close> returns the vector itself when its norm is zero.\<close>

definition normalized :: "Vector3 \<Rightarrow> Vector3" where
  "normalized v = (if 0 < vnorm v then vscale (1 / vnorm v) v else v)"

definition mat_vec :: "Matrix3 \<Rightarrow> Vector3 \<Rightarrow> Vector3" where
  "mat_vec M v = (case M of (c0, c1, c2) \<Rightarrow>
     vadd (vscale (vx v) c0) (vadd (vscale (vy v) c1) (vscale (vz v) c2)))"

definition mat_mul :: "Matrix3 \<Rightarrow> Matrix3 \<Rightarrow> Matrix3" where
  "mat_mul A B = (case B of (b0, b1, b2) \<Rightarrow> (mat_vec A b0, mat_vec A b1, mat_vec A b2))"

text \<open>
  Eigen's \<^verbatim>\<open>AngleAxis::toRotationMatrix()\<close>, which applies Rodrigues' formula to
  the stored axis without normalising it.
\<close>

type_synonym AngleAxis = "real \<times> Vector3"

definition toRotationMatrix :: "AngleAxis \<Rightarrow> Matrix3" where
  "toRotationMatrix aa = (case aa of (angle, axis) \<Rightarrow>
     let s = sin angle; c = cos angle; t = 1 - c;
         x = vx axis; y = vy axis; z = vz axis
     in ((t * x * x + c,     t * x * y + s * z, t * x * z - s * y),
         (t * x * y - s * z, t * y * y + c,     t * y * z + s * x),
         (t * x * z + s * y, t * y * z - s * x, t * z * z + c)))"

text \<open>\<^verbatim>\<open>atan2(y, x)\<close> of the C library on the reals.\<close>

definition atan2 :: "real \<Rightarrow> real \<Rightarrow> real" where
  "atan2 y x =
     (if 0 < x then arctan (y / x)
      else if x < 0 \<and> 0 \<le> y then arctan (y / x) + pi
      else if x < 0 \<and> y < 0 then arctan (y / x) - pi
      else if 0 < y then pi / 2
      else if y < 0 then - (pi / 2)
      else 0)"

text \<open>The conversion of a \<^verbatim>\<open>double\<close> to \<^verbatim>\<open>int\<close> drops the fraction.\<close>

definition truncate_int :: "real \<Rightarrow> int" where
  "truncate_int r = (if 0 \<le> r then \<lfloor>r\<rfloor> else \<lceil>r\<rceil>)"

text \<open>
  \<^verbatim>\<open>for(int i = lo; i < hi; ++i) body\<close>: the body is run on the state for
  \<open>i = lo, lo + 1, \<dots>, hi - 1\<close> in this order, and not at all when \<open>hi \<le> lo\<close>.
\<close>

definition for_loop :: "int \<Rightarrow> int \<Rightarrow> (int \<Rightarrow> 's \<Rightarrow> 's) \<Rightarrow> 's \<Rightarrow> 's" where
  "for_loop lo hi body s = fold body [lo..hi - 1] s"

section \<open>The mesh\<close>

text \<open>
  \<^verbatim>\<open>SgMesh\<close> is declared in \<^verbatim>\<open>SceneDrawables.h\<close>; the record has the arrays the
  generator writes.  \<open>triangleVertices\<close> is the flat index array: three
  entries per triangle, appended by \<^verbatim>\<open>addTriangle\<close>.
\<close>

datatype Primitive =
    MeshType
  | Box Vector3
  | Sphere real
  | Cylinder real real
  | Cone real real
  | Capsule real real

record SgMesh =
  vertices :: "Vector3 list"
  triangleVertices :: "int list"
  normals :: "Vector3 list"
  normalIndices :: "int list"
  normalsCreaseAngle :: "real option"
  texCoords :: "Vector2 list"
  texCoordIndices :: "int list"
  primitive :: Primitive
  boundingBox :: "(Vector3 \<times> Vector3) option"

definition newSgMesh :: SgMesh where
  "newSgMesh = \<lparr> vertices = [], triangleVertices = [], normals = [], normalIndices = [],
     normalsCreaseAngle = None, texCoords = [], texCoordIndices = [],
     primitive = MeshType, boundingBox = None \<rparr>"

definition addTriangle :: "SgMesh \<Rightarrow> int \<Rightarrow> int \<Rightarrow> int \<Rightarrow> SgMesh" where
  "addTriangle mesh a b c = mesh\<lparr> triangleVertices := triangleVertices mesh @ [a, b, c] \<rparr>"

definition push_vertex :: "SgMesh \<Rightarrow> Vector3 \<Rightarrow> SgMesh" where
  "push_vertex mesh v = mesh\<lparr> vertices := vertices mesh @ [v] \<rparr>"

definition numTriangles :: "SgMesh \<Rightarrow> nat" where
  "numTriangles mesh = length (triangleVertices mesh) div 3"

text \<open>The \<open>i\<close>-th triangle of a mesh, as \<^verbatim>\<open>mesh->triangle(i)\<close> reads it.\<close>

definition triangle :: "SgMesh \<Rightarrow> nat \<Rightarrow> int \<times> int \<times> int" where
  "triangle mesh i = (triangleVertices mesh ! (3 * i),
                      triangleVertices mesh ! (3 * i + 1),
                      triangleVertices mesh ! (3 * i + 2))"

text \<open>
  Modelled from the spec: \<^verbatim>\<open>SgMesh::updateBoundingBox\<close> is defined outside \<^verbatim>\<open>MeshGenerator.cpp\<close>;
  it recomputes the bounding volume of the mesh from its vertices.
\<close>

definition updateBoundingBox :: "SgMesh \<Rightarrow> SgMesh" where
  "updateBoundingBox mesh = mesh\<lparr> boundingBox :=
     (case vertices mesh of
        [] \<Rightarrow> None
      | v # vs \<Rightarrow> Some (fold (\<lambda>p (lo, hi).
            ((min (vx lo) (vx p), min (vy lo) (vy p), min (vz lo) (vz p)),
             (max (vx hi) (vx p), max (vy hi) (vy p), max (vz hi) (vz p)))) vs (v, v))) \<rparr>"

text \<open>
  Modelled from the spec: \<^verbatim>\<open>MeshFilter::generateNormals(mesh, creaseAngle)\<close>, the
  Normal Generator, is defined in \<^verbatim>\<open>MeshFilter.cpp\<close>; it adds normal and normal-index
  arrays to the mesh in place and leaves vertices and triangles as they are.  The
  arrays it computes are not modelled: the mesh records the crease angle of the
  call that produced them.
\<close>

definition MeshFilter_generateNormals :: "SgMesh \<Rightarrow> real \<Rightarrow> SgMesh" where
  "MeshFilter_generateNormals mesh creaseAngle = mesh\<lparr> normalsCreaseAngle := Some creaseAngle \<rparr>"

section \<open>The generator and its configuration\<close>

text \<open>
  The fields are the members \<^verbatim>\<open>divisionNumber_\<close>, \<^verbatim>\<open>isNormalGenerationEnabled_\<close> and
  \<^verbatim>\<open>isBoundingBoxUpdateEnabled_\<close>, under the names of their getters.  The member
  \<^verbatim>\<open>meshFilter\<close> only caches the collaborator object and is left out.
\<close>

record MeshGenerator =
  divisionNumber :: int
  isNormalGenerationEnabled :: bool
  isBoundingBoxUpdateEnabled :: bool

definition defaultDivisionNumber :: int where
  "defaultDivisionNumber = 20"

definition newMeshGenerator :: MeshGenerator where
  "newMeshGenerator = \<lparr> divisionNumber = defaultDivisionNumber,
     isNormalGenerationEnabled = True, isBoundingBoxUpdateEnabled = True \<rparr>"

definition setDivisionNumber :: "int \<Rightarrow> MeshGenerator \<Rightarrow> MeshGenerator" where
  "setDivisionNumber n g =
     (if n < 0 then g\<lparr> divisionNumber := defaultDivisionNumber \<rparr>
      else g\<lparr> divisionNumber := n \<rparr>)"

definition setNormalGenerationEnabled :: "bool \<Rightarrow> MeshGenerator \<Rightarrow> MeshGenerator" where
  "setNormalGenerationEnabled on g = g\<lparr> isNormalGenerationEnabled := on \<rparr>"

definition setBoundingBoxUpdateEnabled :: "bool \<Rightarrow> MeshGenerator \<Rightarrow> MeshGenerator" where
  "setBoundingBoxUpdateEnabled on g = g\<lparr> isBoundingBoxUpdateEnabled := on \<rparr>"

definition generateNormals :: "MeshGenerator \<Rightarrow> SgMesh \<Rightarrow> real \<Rightarrow> SgMesh" where
  "generateNormals g mesh creaseAngle =
     (if isNormalGenerationEnabled g then MeshFilter_generateNormals mesh creaseAngle else mesh)"

section \<open>Box\<close>

definition generateTextureCoordinateForBox :: "SgMesh \<Rightarrow> SgMesh" where
  "generateTextureCoordinateForBox mesh = mesh\<lparr>
     texCoords := [(0, 0), (1, 0), (0, 1), (1, 1)],
     texCoordIndices :=
       [3, 2, 0,  0, 1, 3,  1, 2, 0,  1, 3, 2,  3, 2, 0,  3, 0, 1,
        2, 0, 1,  2, 1, 3,  0, 1, 3,  0, 3, 2,  2, 1, 3,  2, 0, 1] \<rparr>"

definition generateBox :: "MeshGenerator \<Rightarrow> Vector3 \<Rightarrow> bool \<Rightarrow> SgMesh option" where
  "generateBox g boxSize enableTextureCoordinate =
     (if vx boxSize < 0 \<or> vy boxSize < 0 \<or> vz boxSize < 0 then None
      else
        let x = vx boxSize * 0.5;
            y = vy boxSize * 0.5;
            z = vz boxSize * 0.5;
            mesh = newSgMesh;
            mesh = mesh\<lparr> vertices :=
              [( x, y, z), (-x, y, z), (-x, -y, z), ( x, -y, z),
               ( x, y, -z), (-x, y, -z), (-x, -y, -z), ( x, -y, -z)] \<rparr>;
            mesh = mesh\<lparr> triangleVertices := triangleVertices mesh @
              [0,1,2, 2,3,0,
               0,5,1, 0,4,5,
               1,5,6, 1,6,2,
               2,6,7, 2,7,3,
               3,7,4, 3,4,0,
               4,6,5, 4,7,6] \<rparr>;
            mesh = mesh\<lparr> primitive := Box boxSize \<rparr>;
            mesh = (if isBoundingBoxUpdateEnabled g then updateBoundingBox mesh else mesh);
            mesh = generateNormals g mesh 0;
            mesh = (if enableTextureCoordinate then generateTextureCoordinateForBox mesh else mesh)
        in Some mesh)"

section \<open>Texture coordinate points\<close>

text \<open>
  Eigen's \<^verbatim>\<open>isApprox\<close> on \<^verbatim>\<open>Vector2f\<close>, with the precision \<open>1e-5\<close> of \<^verbatim>\<open>float\<close>.
\<close>

definition isApprox :: "Vector2 \<Rightarrow> Vector2 \<Rightarrow> bool" where
  "isApprox a b \<longleftrightarrow>
     (fst a - fst b)\<^sup>2 + (snd a - snd b)\<^sup>2
       \<le> (1 / 100000)\<^sup>2 * min ((fst a)\<^sup>2 + (snd a)\<^sup>2) ((fst b)\<^sup>2 + (snd b)\<^sup>2)"

fun findTexCoordPoint_from :: "int \<Rightarrow> Vector2 list \<Rightarrow> Vector2 \<Rightarrow> int" where
  "findTexCoordPoint_from i [] point = -1"
| "findTexCoordPoint_from i (p # ps) point =
     (if isApprox p point then i else findTexCoordPoint_from (i + 1) ps point)"

definition findTexCoordPoint :: "Vector2 list \<Rightarrow> Vector2 \<Rightarrow> int" where
  "findTexCoordPoint texCoords' point = findTexCoordPoint_from 0 texCoords' point"

text \<open>
  The builders for sphere, cylinder and cone end every point with the same lines: look
  the point up, push the index found, or else push the point and the next free index.
  The state is the mesh and the counter \<^verbatim>\<open>texIndex\<close>.
\<close>

definition pushTexPoint :: "Vector2 \<Rightarrow> SgMesh \<times> int \<Rightarrow> SgMesh \<times> int" where
  "pushTexPoint texPoint st = (case st of (mesh, texIndex) \<Rightarrow>
     let k = findTexCoordPoint (texCoords mesh) texPoint
     in if k \<ge> 0 then (mesh\<lparr> texCoordIndices := texCoordIndices mesh @ [k] \<rparr>, texIndex)
        else (mesh\<lparr> texCoords := texCoords mesh @ [texPoint],
                    texCoordIndices := texCoordIndices mesh @ [texIndex] \<rparr>, texIndex + 1))"

definition pushTexIndex :: "int \<Rightarrow> SgMesh \<times> int \<Rightarrow> SgMesh \<times> int" where
  "pushTexIndex k st = (case st of (mesh, texIndex) \<Rightarrow>
     (mesh\<lparr> texCoordIndices := texCoordIndices mesh @ [k] \<rparr>, texIndex))"

text \<open>The three corner points of triangle \<open>i\<close>, read from the vertex array.\<close>

definition trianglePoints :: "SgMesh \<Rightarrow> int \<Rightarrow> Vector3 list" where
  "trianglePoints mesh i = (case triangle mesh (nat i) of (a, b, c) \<Rightarrow>
     [vertices mesh ! nat a, vertices mesh ! nat b, vertices mesh ! nat c])"

text \<open>The seam rule shared by the sphere and the cylinder side.\<close>

definition seamCoordinate :: "bool \<Rightarrow> real \<Rightarrow> real" where
  "seamCoordinate over s0 =
     (let s = (if s0 < 1 / 1000000 then 0 else s0);
          s = (if s > 1 then 1 else s);
          s = (if over \<and> s = 0 then 1 else s)
      in s)"

section \<open>Sphere\<close>

text \<open>
  \<^verbatim>\<open>mesh->primitive<SgMesh::Sphere>().radius\<close>.  The builder is only called by
  \<open>generateSphere\<close>, after it has set the primitive to a sphere; the second equation
  is never reached from there.
\<close>

fun sphereRadius :: "Primitive \<Rightarrow> real" where
  "sphereRadius (Sphere r) = r"
| "sphereRadius _ = 0"

definition generateTextureCoordinateForSphere :: "SgMesh \<Rightarrow> SgMesh" where
  "generateTextureCoordinateForSphere mesh0 =
     (let radius = sphereRadius (primitive mesh0);
          mesh = mesh0\<lparr> texCoords := [], texCoordIndices := [] \<rparr>;
          numTriangles' = int (numTriangles mesh)
      in fst (for_loop 0 numTriangles' (\<lambda>i st.
           let point = trianglePoints mesh0 i;
               s = map (\<lambda>p. (atan2 (vx p) (vz p) + pi) / 2 / pi) point;
               over = list_ex (\<lambda>sj. sj > 0.5) s
           in for_loop 0 3 (\<lambda>j st.
                let sj = seamCoordinate over (s ! nat j);
                    w = vy (point ! nat j) / radius;
                    w = (if w > 1 then 1 else w);
                    w = (if w < -1 then -1 else w);
                    texPoint = (sj, 1 - arccos w / pi)
                in pushTexPoint texPoint st) st) (mesh, 0)))"

definition generateSphere :: "MeshGenerator \<Rightarrow> real \<Rightarrow> bool \<Rightarrow> SgMesh option" where
  "generateSphere g radius enableTextureCoordinate =
     (if radius < 0 \<or> divisionNumber g < 4 then None
      else
        let mesh = newSgMesh;
            vdn = divisionNumber g sdiv 2;
            hdn = divisionNumber g;
            mesh = for_loop 1 vdn (\<lambda>i mesh.
              let tv = real_of_int i * pi / real_of_int vdn
              in for_loop 0 hdn (\<lambda>j mesh.
                   let th = real_of_int j * 2 * pi / real_of_int hdn
                   in push_vertex mesh
                        (radius * sin tv * cos th, radius * cos tv, radius * sin tv * sin th)) mesh) mesh;
            topIndex = int (length (vertices mesh));
            mesh = push_vertex mesh (0, radius, 0);
            bottomIndex = int (length (vertices mesh));
            mesh = push_vertex mesh (0, - radius, 0);
            mesh = for_loop 0 hdn (\<lambda>i mesh.
              addTriangle mesh topIndex ((i + 1) smod hdn) i) mesh;
            mesh = for_loop 0 (vdn - 2) (\<lambda>i mesh.
              let upper = i * hdn;
                  lower = (i + 1) * hdn
              in for_loop 0 hdn (\<lambda>j mesh.
                   let mesh = addTriangle mesh (j + upper) (((j + 1) smod hdn) + lower) (j + lower);
                       mesh = addTriangle mesh (j + upper) (((j + 1) smod hdn) + upper)
                                (((j + 1) smod hdn) + lower)
                   in mesh) mesh) mesh;
            offset = (vdn - 2) * hdn;
            mesh = for_loop 0 hdn (\<lambda>i mesh.
              addTriangle mesh bottomIndex ((i smod hdn) + offset) (((i + 1) smod hdn) + offset)) mesh;
            mesh = mesh\<lparr> primitive := Sphere radius \<rparr>;
            mesh = (if isBoundingBoxUpdateEnabled g then updateBoundingBox mesh else mesh);
            mesh = generateNormals g mesh pi;
            mesh = (if enableTextureCoordinate then generateTextureCoordinateForSphere mesh else mesh)
        in Some mesh)"

section \<open>Cylinder\<close>

text \<open>
  The indices of the corners whose \<open>x\<close> and \<open>z\<close> are both zero: the loop keeps
  the last one, and \<open>-1\<close> when there is none.
\<close>

definition lastIndexWhere :: "('a \<Rightarrow> bool) \<Rightarrow> 'a list \<Rightarrow> int" where
  "lastIndexWhere P xs =
     for_loop 0 (int (length xs)) (\<lambda>j r. if P (xs ! nat j) then j else r) (-1)"

definition generateTextureCoordinateForCylinder :: "SgMesh \<Rightarrow> SgMesh" where
  "generateTextureCoordinateForCylinder mesh0 =
     (let mesh = mesh0\<lparr> texCoords := [], texCoordIndices := [] \<rparr>;
          mesh = mesh\<lparr> texCoords := texCoords mesh @ [(0.5, 0.5)] \<rparr>;
          numTriangles' = int (numTriangles mesh)
      in fst (for_loop 0 numTriangles' (\<lambda>i st.
           let point = trianglePoints mesh0 i;
               notside = (vy (point ! 0) = vy (point ! 1) \<and> vy (point ! 0) = vy (point ! 2));
               center = lastIndexWhere (\<lambda>p. vx p = 0 \<and> vz p = 0) point
           in if \<not> notside then
                let s = map (\<lambda>p. (atan2 (vx p) (vz p) + pi) / 2 / pi) point;
                    over = list_ex (\<lambda>sj. sj > 0.5) s
                in for_loop 0 3 (\<lambda>j st.
                     let sj = seamCoordinate over (s ! nat j);
                         texPoint = (sj, if vy (point ! nat j) > 0 then 1 else 0)
                     in pushTexPoint texPoint st) st
              else
                for_loop 0 3 (\<lambda>j st.
                  if j \<noteq> center then
                    let angle = atan2 (vz (point ! nat j)) (vx (point ! nat j));
                        texPoint = (0.5 + 0.5 * cos angle,
                                    if vy (point ! 0) > 0 then 0.5 - 0.5 * sin angle
                                    else 0.5 + 0.5 * sin angle)
                    in pushTexPoint texPoint st
                  else pushTexIndex 0 st) st) (mesh, 1)))"

definition generateCylinder ::
  "MeshGenerator \<Rightarrow> real \<Rightarrow> real \<Rightarrow> bool \<Rightarrow> bool \<Rightarrow> bool \<Rightarrow> bool \<Rightarrow> SgMesh option" where
  "generateCylinder g radius height bottom top' side enableTextureCoordinate =
     (if height < 0 \<or> radius < 0 then None
      else
        let mesh = newSgMesh;
            d = divisionNumber g;
            mesh = mesh\<lparr> vertices := replicate (nat (d * 2)) (0, 0, 0) \<rparr>;
            y = height / 2;
            mesh = for_loop 0 d (\<lambda>i mesh.
              let angle = real_of_int i * 2 * pi / real_of_int d;
                  vtop = (radius * cos angle, y, radius * sin angle);
                  vbottom = (radius * cos angle, - y, radius * sin angle)
              in mesh\<lparr> vertices := (vertices mesh)[nat i := vtop, nat (i + d) := vbottom] \<rparr>) mesh;
            topCenterIndex = int (length (vertices mesh));
            mesh = push_vertex mesh (0, y, 0);
            bottomCenterIndex = int (length (vertices mesh));
            mesh = push_vertex mesh (0, - y, 0);
            mesh = for_loop 0 d (\<lambda>i mesh.
              let mesh = (if top' then addTriangle mesh topCenterIndex ((i + 1) smod d) i else mesh);
                  mesh = (if side then
                            addTriangle
                              (addTriangle mesh i (((i + 1) smod d) + d) (i + d))
                              i ((i + 1) smod d) (((i + 1) smod d) + d)
                          else mesh);
                  mesh = (if bottom then
                            addTriangle mesh bottomCenterIndex (i + d) (((i + 1) smod d) + d)
                          else mesh)
              in mesh) mesh;
            mesh = mesh\<lparr> primitive := Cylinder radius height \<rparr>;
            mesh = (if isBoundingBoxUpdateEnabled g then updateBoundingBox mesh else mesh);
            mesh = generateNormals g mesh (pi / 2);
            mesh = (if enableTextureCoordinate then generateTextureCoordinateForCylinder mesh else mesh)
        in Some mesh)"

section \<open>Cone\<close>

definition generateTextureCoordinateForCone :: "SgMesh \<Rightarrow> SgMesh" where
  "generateTextureCoordinateForCone mesh0 =
     (let mesh = mesh0\<lparr> texCoords := [], texCoordIndices := [] \<rparr>;
          mesh = mesh\<lparr> texCoords := texCoords mesh @ [(0.5, 0.5)] \<rparr>;
          numTriangles' = int (numTriangles mesh)
      in fst (for_loop 0 numTriangles' (\<lambda>i st.
           let point = trianglePoints mesh0 i;
               top' = lastIndexWhere (\<lambda>p. vy p > 0) point;
               center = lastIndexWhere (\<lambda>p. vx p = 0 \<and> vz p = 0) point
           in if top' \<ge> 0 then
                let s = fst (for_loop 0 3 (\<lambda>j (s, pre).
                          if j \<noteq> top' then
                            let sj = (atan2 (vx (point ! nat j)) (vz (point ! nat j)) + pi) / 2 / pi;
                                sj = (if pre \<noteq> -1 \<and> s ! nat pre > 0.5 \<and> sj < 1 / 1000000
                                      then 1 else sj)
                            in (s[nat j := sj], j)
                          else (s, pre)) ([0, 0, 0], -1))
                in for_loop 0 3 (\<lambda>j st.
                     let texPoint = (if j \<noteq> top' then (s ! nat j, 0)
                                     else ((s ! 0 + s ! 1 + s ! 2) / 2, 1))
                     in pushTexPoint texPoint st) st
              else
                for_loop 0 3 (\<lambda>j st.
                  if j \<noteq> center then
                    let angle = atan2 (vz (point ! nat j)) (vx (point ! nat j));
                        texPoint = (0.5 + 0.5 * cos angle, 0.5 + 0.5 * sin angle)
                    in pushTexPoint texPoint st
                  else pushTexIndex 0 st) st) (mesh, 1)))"

definition generateCone ::
  "MeshGenerator \<Rightarrow> real \<Rightarrow> real \<Rightarrow> bool \<Rightarrow> bool \<Rightarrow> bool \<Rightarrow> SgMesh option" where
  "generateCone g radius height bottom side enableTextureCoordinate =
     (if radius < 0 \<or> height < 0 then None
      else
        let mesh = newSgMesh;
            d = divisionNumber g;
            mesh = for_loop 0 d (\<lambda>i mesh.
              let angle = real_of_int i * 2 * pi / real_of_int d
              in push_vertex mesh (radius * cos angle, - height / 2, radius * sin angle)) mesh;
            topIndex = int (length (vertices mesh));
            mesh = push_vertex mesh (0, height / 2, 0);
            bottomCenterIndex = int (length (vertices mesh));
            mesh = push_vertex mesh (0, - height / 2, 0);
            mesh = for_loop 0 d (\<lambda>i mesh.
              let mesh = (if side then addTriangle mesh topIndex ((i + 1) smod d) i else mesh);
                  mesh = (if bottom then addTriangle mesh bottomCenterIndex i ((i + 1) smod d)
                          else mesh)
              in mesh) mesh;
            mesh = mesh\<lparr> primitive := Cone radius height \<rparr>;
            mesh = (if isBoundingBoxUpdateEnabled g then updateBoundingBox mesh else mesh);
            mesh = generateNormals g mesh (pi / 2);
            mesh = (if enableTextureCoordinate then generateTextureCoordinateForCone mesh else mesh)
        in Some mesh)"

section \<open>Capsule\<close>

definition generateCapsule :: "MeshGenerator \<Rightarrow> real \<Rightarrow> real \<Rightarrow> SgMesh option" where
  "generateCapsule g radius height =
     (if height < 0 \<or> radius < 0 then None
      else
        let mesh = newSgMesh;
            vdn = divisionNumber g sdiv 2;
            vdn = (if vdn smod 2 \<noteq> 0 then vdn + 1 else vdn);
            hdn = divisionNumber g;
            mesh = for_loop 1 (vdn + 1) (\<lambda>i mesh.
              let (y, tv) =
                    (if i \<le> vdn sdiv 2
                     then (height / 2, real_of_int i * pi / real_of_int vdn)
                     else (- height / 2, real_of_int (i - 1) * pi / real_of_int vdn))
              in for_loop 0 hdn (\<lambda>j mesh.
                   let th = real_of_int j * 2 * pi / real_of_int hdn
                   in push_vertex mesh
                        (radius * sin tv * cos th, radius * cos tv + y, radius * sin tv * sin th)) mesh) mesh;
            topIndex = int (length (vertices mesh));
            mesh = push_vertex mesh (0, radius + height / 2, 0);
            bottomIndex = int (length (vertices mesh));
            mesh = push_vertex mesh (0, - radius - height / 2, 0);
            mesh = for_loop 0 hdn (\<lambda>i mesh.
              addTriangle mesh topIndex ((i + 1) smod hdn) i) mesh;
            mesh = for_loop 0 (vdn - 1) (\<lambda>i mesh.
              let upper = i * hdn;
                  lower = (i + 1) * hdn
              in for_loop 0 hdn (\<lambda>j mesh.
                   let mesh = addTriangle mesh (j + upper) (((j + 1) smod hdn) + lower) (j + lower);
                       mesh = addTriangle mesh (j + upper) (((j + 1) smod hdn) + upper)
                                (((j + 1) smod hdn) + lower)
                   in mesh) mesh) mesh;
            offset = (vdn - 1) * hdn;
            mesh = for_loop 0 hdn (\<lambda>i mesh.
              addTriangle mesh bottomIndex ((i smod hdn) + offset) (((i + 1) smod hdn) + offset)) mesh;
            mesh = mesh\<lparr> primitive := Capsule radius height \<rparr>;
            mesh = (if isBoundingBoxUpdateEnabled g then updateBoundingBox mesh else mesh);
            mesh = generateNormals g mesh (pi / 2)
        in Some mesh)"

section \<open>Disc\<close>

definition generateDisc :: "MeshGenerator \<Rightarrow> real \<Rightarrow> real \<Rightarrow> SgMesh option" where
  "generateDisc g radius innerRadius =
     (if innerRadius \<le> 0 \<or> radius \<le> innerRadius then None
      else
        let mesh = newSgMesh;
            d = divisionNumber g;
            mesh = for_loop 0 d (\<lambda>i mesh.
              let angle = real_of_int i * 2 * pi / real_of_int d;
                  x = cos angle;
                  z = sin angle;
                  mesh = push_vertex mesh (innerRadius * x, 0, innerRadius * z);
                  mesh = push_vertex mesh (radius * x, 0, radius * z)
              in mesh) mesh;
            mesh = mesh\<lparr> normals := normals mesh @ [(0, 0, 1)] \<rparr>;
            mesh = for_loop 0 d (\<lambda>i mesh.
              let j = (i + 1) smod d;
                  current = i * 2;
                  next = j * 2;
                  mesh = addTriangle mesh current (current + 1) (next + 1);
                  mesh = addTriangle mesh current (next + 1) next;
                  mesh = for_loop 0 6 (\<lambda>j mesh.
                           mesh\<lparr> normalIndices := normalIndices mesh @ [0] \<rparr>) mesh
              in mesh) mesh;
            mesh = (if isBoundingBoxUpdateEnabled g then updateBoundingBox mesh else mesh)
        in Some mesh)"

section \<open>Torus\<close>

text \<open>
  The overload with begin and end angle.  \<^verbatim>\<open>phi\<close> is a running sum and part of the
  state of the vertex loop.
\<close>

definition generateTorus_arc ::
  "MeshGenerator \<Rightarrow> real \<Rightarrow> real \<Rightarrow> real \<Rightarrow> real \<Rightarrow> SgMesh option" where
  "generateTorus_arc g radius crossSectionRadius beginAngle endAngle =
     (let isSemiTorus = (beginAngle > 0 \<or> endAngle < 2 * pi);
          phiDivisionNumber = truncate_int (real_of_int (divisionNumber g) * endAngle / (2 * pi));
          phiStep = (endAngle - beginAngle) / real_of_int phiDivisionNumber;
          phiDivisionNumber = (if isSemiTorus then phiDivisionNumber + 1 else phiDivisionNumber);
          thetaDivisionNumber = divisionNumber g sdiv 4;
          mesh = newSgMesh;
          phi = beginAngle;
          (mesh, phi) = for_loop 0 phiDivisionNumber (\<lambda>i (mesh, phi).
            let mesh = for_loop 0 thetaDivisionNumber (\<lambda>j mesh.
                  let theta = real_of_int j * 2 * pi / real_of_int thetaDivisionNumber;
                      r = crossSectionRadius * cos theta + radius
                  in push_vertex mesh (cos phi * r, crossSectionRadius * sin theta, sin phi * r)) mesh
            in (mesh, phi + phiStep)) (mesh, phi);
          n = (if endAngle = 2 * pi then phiDivisionNumber else phiDivisionNumber - 1);
          mesh = for_loop 0 n (\<lambda>i mesh.
            let current = i * thetaDivisionNumber;
                next = ((i + 1) smod phiDivisionNumber) * thetaDivisionNumber
            in for_loop 0 thetaDivisionNumber (\<lambda>j mesh.
                 let j_next = (j + 1) smod thetaDivisionNumber;
                     mesh = addTriangle mesh (current + j) (next + j_next) (next + j);
                     mesh = addTriangle mesh (current + j) (current + j_next) (next + j_next)
                 in mesh) mesh) mesh;
          mesh = (if isBoundingBoxUpdateEnabled g then updateBoundingBox mesh else mesh);
          mesh = generateNormals g mesh pi
      in Some mesh)"


section \<open>Arrow\<close>

text \<open>
  The scene graph nodes the arrow is assembled from.  A shape holds a mesh pointer,
  which may be null.
\<close>

datatype SgNode =
    SgShape "SgMesh option"
  | SgPosTransform Vector3 "SgNode list"
  | SgGroup "SgNode list"

text \<open>
  A call through a null pointer ends the process; it is the one fault a generator can
  run into.
\<close>

datatype Fault = NullPointerDereference

text \<open>
  \<^verbatim>\<open>MeshExtractor::integrate\<close> is defined in another file and is a parameter of the
  model: it maps the group to the pointer it returns.  The calls to \<^verbatim>\<open>generateCone\<close>
  and \<^verbatim>\<open>generateCylinder\<close> leave out trailing arguments; the declaration gives the
  face flags the default \<open>true\<close> and the texture flag the default \<open>false\<close>.
\<close>

definition generateArrow ::
  "MeshGenerator \<Rightarrow> (SgNode \<Rightarrow> SgMesh option) \<Rightarrow> real \<Rightarrow> real \<Rightarrow> real \<Rightarrow> real
     \<Rightarrow> Fault + SgMesh option" where
  "generateArrow g integrate cylinderRadius cylinderHeight coneRadius coneHeight =
     (let cone = SgShape (generateCone g coneRadius coneHeight True True False);
          conePos = SgPosTransform (0, cylinderHeight / 2 + coneHeight / 2, 0) [cone];
          cylinder = SgShape (generateCylinder g cylinderRadius cylinderHeight True False True False);
          group = SgGroup [conePos, cylinder];
          arrow = integrate group
      in if isBoundingBoxUpdateEnabled g then
           (case arrow of
              None \<Rightarrow> Inl NullPointerDereference
            | Some mesh \<Rightarrow> Inr (Some (updateBoundingBox mesh)))
         else Inr arrow)"

section \<open>Extrusion\<close>

record Extrusion =
  crossSection :: "Vector2 list"
  spine :: "Vector3 list"
  orientation :: "AngleAxis list"
  scale :: "Vector2 list"
  creaseAngle :: real
  beginCap :: bool
  endCap :: bool

text \<open>
  The first block of \<^verbatim>\<open>generateExtrusion\<close>: the tangent (\<open>Yaxis\<close>) and the candidate
  binormal (\<open>Zaxis\<close>) of every spine point.  The result holds \<^verbatim>\<open>definedZaxis\<close>,
  \<^verbatim>\<open>Yaxisarray\<close> and \<^verbatim>\<open>Zaxisarray\<close>.
\<close>

definition extrusionAxes :: "Vector3 list \<Rightarrow> int \<Rightarrow> bool \<Rightarrow> int \<times> Vector3 list \<times> Vector3 list" where
  "extrusionAxes sp spineSize isClosed =
     (if spineSize > 2 then
        (case for_loop 0 spineSize (\<lambda>i (preZaxis, definedZaxis, Yaxisarray, Zaxisarray).
           let (spine1, spine2, spine3, Yaxis) =
                 (if i = 0 then
                    (if isClosed then
                       (sp ! nat (spineSize - 1), sp ! 0, sp ! 1,
                        vsub (sp ! 1) (sp ! nat (spineSize - 1)))
                     else (sp ! 0, sp ! 1, sp ! 2, vsub (sp ! 1) (sp ! 0)))
                  else if i = spineSize - 1 then
                    (if isClosed then
                       (sp ! nat (spineSize - 2), sp ! nat (spineSize - 1), sp ! 0,
                        vsub (sp ! 0) (sp ! nat (spineSize - 2)))
                     else
                       (sp ! nat (spineSize - 3), sp ! nat (spineSize - 2), sp ! nat (spineSize - 1),
                        vsub (sp ! nat (spineSize - 1)) (sp ! nat (spineSize - 2))))
                  else
                    (sp ! nat (i - 1), sp ! nat i, sp ! nat (i + 1),
                     vsub (sp ! nat (i + 1)) (sp ! nat (i - 1))));
               Zaxis = vcross (vsub spine3 spine2) (vsub spine1 spine2)
           in if vnorm Zaxis = 0 then
                (preZaxis, definedZaxis, Yaxisarray @ [Yaxis],
                 Zaxisarray @ [if definedZaxis \<noteq> -1 then preZaxis else Zaxis])
              else
                (Zaxis, if definedZaxis = -1 then i else definedZaxis,
                 Yaxisarray @ [Yaxis], Zaxisarray @ [Zaxis]))
           ((0, 0, 0), -1, [], [])
         of (preZaxis, definedZaxis, Yaxisarray, Zaxisarray) \<Rightarrow>
              (definedZaxis, Yaxisarray, Zaxisarray))
      else
        (let Yaxis = vsub (sp ! 1) (sp ! 0) in (-1, [Yaxis, Yaxis], [])))"

definition generateTextureCoordinateForExtrusion ::
  "SgMesh \<Rightarrow> Vector2 list \<Rightarrow> Vector3 list \<Rightarrow> int \<Rightarrow> int \<Rightarrow> int \<Rightarrow> SgMesh" where
  "generateTextureCoordinateForExtrusion mesh0 cs sp numTriOfbeginCap numTriOfendCap indexOfendCap =
     (let spineSize = int (length sp);
          crossSectionSize = int (length cs);
          mesh = mesh0\<lparr> texCoords := [] \<rparr>;
          (s, slen) = for_loop 1 crossSectionSize (\<lambda>i (s, slen).
            let x = fst (cs ! nat i) - fst (cs ! nat (i - 1));
                z = snd (cs ! nat i) - snd (cs ! nat (i - 1));
                slen = slen + sqrt (x * x + z * z)
            in (s @ [slen], slen)) ([0], 0);
          (t, tlen) = for_loop 1 spineSize (\<lambda>i (t, tlen).
            let x = vx (sp ! nat i) - vx (sp ! nat (i - 1));
                y = vy (sp ! nat i) - vy (sp ! nat (i - 1));
                z = vz (sp ! nat i) - vz (sp ! nat (i - 1));
                tlen = tlen + sqrt (x * x + y * y + z * z)
            in (t @ [tlen], tlen)) ([0], 0);
          mesh = for_loop 0 spineSize (\<lambda>i mesh.
            let point1 = t ! nat i / tlen
            in for_loop 0 crossSectionSize (\<lambda>j mesh.
                 mesh\<lparr> texCoords := texCoords mesh @ [(s ! nat j / slen, point1)] \<rparr>) mesh) mesh;
          mesh = mesh\<lparr> texCoordIndices := [] \<rparr>;
          mesh = for_loop 0 (spineSize - 1) (\<lambda>i mesh.
            let ii = i + 1;
                upper = i * crossSectionSize;
                lower = ii * crossSectionSize
            in for_loop 0 (crossSectionSize - 1) (\<lambda>j mesh.
                 let jj = j + 1
                 in mesh\<lparr> texCoordIndices := texCoordIndices mesh @
                      [j + upper, j + lower, jj + lower, j + upper, jj + lower, jj + upper] \<rparr>) mesh) mesh
      in if numTriOfbeginCap + numTriOfendCap = 0 then mesh
         else
           let triangleVertices' = triangleVertices mesh;
               endCapE = int (length triangleVertices');
               endCapS = endCapE - numTriOfendCap * 3;
               beginCapE = endCapS;
               beginCapS = beginCapE - numTriOfbeginCap * 3;
               (xmin, xmax, zmin, zmax) = for_loop 1 (int (length cs)) (\<lambda>i (xmin, xmax, zmin, zmax).
                 let xmax = max xmax (fst (cs ! nat i));
                     xmin = min xmin (fst (cs ! nat i));
                     zmax = max zmax (snd (cs ! nat i));
                     zmin = min xmin (snd (cs ! nat i))
                 in (xmin, xmax, zmin, zmax))
                 (fst (cs ! 0), fst (cs ! 0), snd (cs ! 0), snd (cs ! 0));
               xsize = xmax - xmin;
               zsize = zmax - zmin;
               mesh = (if numTriOfbeginCap \<noteq> 0 then
                   let endOfTexCoord = int (length (texCoords mesh));
                       mesh = for_loop 0 crossSectionSize (\<lambda>i mesh.
                         mesh\<lparr> texCoords := texCoords mesh @
                           [((fst (cs ! nat i) - xmin) / xsize, (snd (cs ! nat i) - zmin) / zsize)] \<rparr>) mesh;
                       mesh = for_loop beginCapS beginCapE (\<lambda>i mesh.
                         mesh\<lparr> texCoordIndices := texCoordIndices mesh @
                           [triangleVertices' ! nat i + endOfTexCoord] \<rparr>) mesh
                   in mesh
                 else mesh);
               mesh = (if numTriOfendCap \<noteq> 0 then
                   let endOfTexCoord = int (length (texCoords mesh));
                       mesh = for_loop 0 crossSectionSize (\<lambda>i mesh.
                         mesh\<lparr> texCoords := texCoords mesh @
                           [((xmax - fst (cs ! nat i)) / xsize, (snd (cs ! nat i) - zmin) / zsize)] \<rparr>) mesh;
                       mesh = for_loop endCapS endCapE (\<lambda>i mesh.
                         mesh\<lparr> texCoordIndices := texCoordIndices mesh @
                           [triangleVertices' ! nat i - indexOfendCap + endOfTexCoord] \<rparr>) mesh
                   in mesh
                 else mesh)
           in mesh)"

text \<open>
  \<^verbatim>\<open>Triangulator\<close> is defined in \<^verbatim>\<open>Triangulator.h\<close> and is a parameter of the model: it
  maps the vertex array and the polygon (a list of vertex indices) to its triangles.
  \<^verbatim>\<open>triangles()\<close> holds three positions of the polygon per triangle, which are
  grouped into a triple here.

  \<^verbatim>\<open>extrusion.scale\<close> and \<^verbatim>\<open>extrusion.orientation\<close> are read at the spine index when
  they have more than one entry; the descriptor then has an entry for every spine point.
\<close>

type_synonym Triangulator = "Vector3 list \<Rightarrow> int list \<Rightarrow> (int \<times> int \<times> int) list"

text \<open>
  \<^verbatim>\<open>generateExtrusion\<close> is a long function and is given in parts, in the order of
  the source: \<open>extrusionAxes\<close> above, then \<open>extrusionVertices\<close>, the loop that
  places the cross-section at every spine point, then \<open>extrudeMesh\<close>, the body from
  \<^verbatim>\<open>auto mesh = new SgMesh\<close> on with the adjusted sizes and the two closure flags as
  arguments, and last \<open>generateExtrusion\<close> itself, which validates the descriptor
  and detects the closures.
\<close>

definition extrusionVertices :: "Extrusion \<Rightarrow> int \<Rightarrow> int \<Rightarrow> bool \<Rightarrow> SgMesh \<Rightarrow> SgMesh" where
  "extrusionVertices extrusion spineSize crossSectionSize isClosed mesh0 =
     (let (definedZaxis, Yaxisarray, Zaxisarray) =
            extrusionAxes (spine extrusion) spineSize isClosed;
          numScales = int (length (scale extrusion));
          numOrientations = int (length (orientation extrusion));
          (mesh, Zaxisarray, scale', orientation') =
            for_loop 0 spineSize (\<lambda>i (mesh, Zaxisarray, scale', orientation').
              let y = normalized (Yaxisarray ! nat i);
                  (Scp, Zaxisarray) =
                    (if definedZaxis = -1 then
                       (toRotationMatrix (arccos (vy y), (vz y, 0, - vx y)), Zaxisarray)
                     else
                       let Zaxisarray =
                             (if i < definedZaxis
                              then Zaxisarray[nat i := Zaxisarray ! nat definedZaxis]
                              else Zaxisarray);
                           Zaxisarray =
                             (if i \<noteq> 0 \<and> vdot (Zaxisarray ! nat i) (Zaxisarray ! nat (i - 1)) < 0
                              then Zaxisarray[nat i := vscale (-1) (Zaxisarray ! nat i)]
                              else Zaxisarray);
                           z = normalized (Zaxisarray ! nat i);
                           x = vcross y z
                       in ((x, y, z), Zaxisarray));
                  spine' = spine extrusion ! nat i;
                  scale' =
                    (if numScales = 1 then
                       (fst (scale extrusion ! 0), 0, snd (scale extrusion ! 0))
                     else if numScales > 1 then
                       (fst (scale extrusion ! nat i), 0, snd (scale extrusion ! nat i))
                     else scale');
                  orientation' =
                    (if numOrientations = 1 then orientation extrusion ! 0
                     else if numOrientations > 1 then orientation extrusion ! nat i
                     else orientation');
                  mesh = for_loop 0 crossSectionSize (\<lambda>j mesh.
                    let crossSection' = (fst (crossSection extrusion ! nat j), 0,
                                         snd (crossSection extrusion ! nat j));
                        v1 = (vx crossSection' * vx scale', 0, vz crossSection' * vz scale');
                        v = vadd (mat_vec (mat_mul Scp (toRotationMatrix orientation')) v1) spine'
                    in push_vertex mesh v) mesh
              in (mesh, Zaxisarray, scale', orientation'))
              (mesh0, Zaxisarray, (1, 0, 1), (0, (0, 0, 1)))
      in mesh)"

definition extrudeMesh ::
  "MeshGenerator \<Rightarrow> Triangulator \<Rightarrow> Extrusion \<Rightarrow> bool \<Rightarrow> int \<Rightarrow> int \<Rightarrow> bool \<Rightarrow> bool \<Rightarrow> SgMesh" where
  "extrudeMesh g triangulator extrusion enableTextureCoordinate
       spineSize crossSectionSize isClosed isCrossSectionClosed =
     (let mesh = newSgMesh;
          mesh = extrusionVertices extrusion spineSize crossSectionSize isClosed mesh;
          numSpinePoints = (if isClosed then spineSize + 1 else spineSize);
          numCrossPoints = (if isCrossSectionClosed then crossSectionSize + 1 else crossSectionSize);
          mesh = for_loop 0 (numSpinePoints - 1) (\<lambda>i mesh.
            let ii = (i + 1) smod spineSize;
                upper = i * crossSectionSize;
                lower = ii * crossSectionSize
            in for_loop 0 (numCrossPoints - 1) (\<lambda>j mesh.
                 let jj = (j + 1) smod crossSectionSize;
                     mesh = addTriangle mesh (j + upper) (j + lower) (jj + lower);
                     mesh = addTriangle mesh (j + upper) (jj + lower) (jj + upper)
                 in mesh) mesh) mesh;
          (mesh, numTriOfbeginCap) =
            (if beginCap extrusion \<and> \<not> isClosed then
               let polygon = for_loop 0 crossSectionSize (\<lambda>i polygon. polygon @ [i]) [];
                   triangles = triangulator (vertices mesh) polygon;
                   mesh = fold (\<lambda>(a, b, c) mesh.
                     addTriangle mesh (polygon ! nat a) (polygon ! nat b) (polygon ! nat c))
                     triangles mesh
               in (mesh, int (length triangles))
             else (mesh, 0));
          (mesh, numTriOfendCap) =
            (if endCap extrusion \<and> \<not> isClosed then
               let polygon = for_loop 0 crossSectionSize (\<lambda>i polygon.
                     polygon @ [crossSectionSize * (spineSize - 1) + i]) [];
                   triangles = triangulator (vertices mesh) polygon;
                   mesh = fold (\<lambda>(a, b, c) mesh.
                     addTriangle mesh (polygon ! nat a) (polygon ! nat c) (polygon ! nat b))
                     triangles mesh
               in (mesh, int (length triangles))
             else (mesh, 0));
          mesh = (if isBoundingBoxUpdateEnabled g then updateBoundingBox mesh else mesh);
          mesh = generateNormals g mesh (creaseAngle extrusion);
          mesh = (if enableTextureCoordinate then
                    generateTextureCoordinateForExtrusion mesh
                      (crossSection extrusion) (spine extrusion)
                      numTriOfbeginCap numTriOfendCap (crossSectionSize * (spineSize - 1))
                  else mesh)
      in mesh)"

definition generateExtrusion ::
  "MeshGenerator \<Rightarrow> Triangulator \<Rightarrow> Extrusion \<Rightarrow> bool \<Rightarrow> SgMesh option" where
  "generateExtrusion g triangulator extrusion enableTextureCoordinate =
     (let spineSize = int (length (spine extrusion));
          crossSectionSize = int (length (crossSection extrusion))
      in if spineSize < 2 \<or> crossSectionSize < 2 then None
         else
           let isClosed = (spine extrusion ! 0 = spine extrusion ! nat (spineSize - 1));
               spineSize = (if isClosed then spineSize - 1 else spineSize);
               isCrossSectionClosed =
                 (crossSection extrusion ! 0 = crossSection extrusion ! nat (crossSectionSize - 1));
               crossSectionSize = (if isCrossSectionClosed then crossSectionSize - 1 else crossSectionSize)
           in if spineSize < 2 \<or> crossSectionSize < 2 then None
              else Some (extrudeMesh g triangulator extrusion enableTextureCoordinate
                           spineSize crossSectionSize isClosed isCrossSectionClosed))"

section \<open>Elevation grid\<close>

text \<open>
  The field \<open>creaseAngle'\<close> is the member \<^verbatim>\<open>creaseAngle\<close> of the grid; the name
  without the prime is the field of the extrusion.
\<close>

record ElevationGrid =
  xDimension :: int
  zDimension :: int
  xSpacing :: real
  zSpacing :: real
  height :: "real list"
  ccw :: bool
  creaseAngle' :: real

definition generateTextureCoordinateForElevationGrid :: "SgMesh \<Rightarrow> ElevationGrid \<Rightarrow> SgMesh" where
  "generateTextureCoordinateForElevationGrid mesh0 grid =
     (let xmax = xSpacing grid * real_of_int (xDimension grid - 1);
          zmax = zSpacing grid * real_of_int (zDimension grid - 1);
          mesh = mesh0\<lparr> texCoords := [] \<rparr>;
          mesh = for_loop 0 (int (length (vertices mesh))) (\<lambda>i mesh.
            let v = vertices mesh ! nat i
            in mesh\<lparr> texCoords := texCoords mesh @ [(vx v / xmax, vz v / zmax)] \<rparr>) mesh;
          mesh = mesh\<lparr> texCoordIndices := triangleVertices mesh \<rparr>
      in mesh)"

definition generateElevationGrid :: "MeshGenerator \<Rightarrow> ElevationGrid \<Rightarrow> bool \<Rightarrow> SgMesh option" where
  "generateElevationGrid g grid enableTextureCoordinate =
     (if xDimension grid * zDimension grid \<noteq> int (length (height grid)) then None
      else
        let mesh = newSgMesh;
            mesh = for_loop 0 (zDimension grid) (\<lambda>z mesh.
              for_loop 0 (xDimension grid) (\<lambda>x mesh.
                push_vertex mesh
                  (real_of_int x * xSpacing grid,
                   height grid ! nat (z * xDimension grid + x),
                   real_of_int z * zSpacing grid)) mesh) mesh;
            mesh = for_loop 0 (zDimension grid - 1) (\<lambda>z mesh.
              let current = z * xDimension grid;
                  next = (z + 1) * xDimension grid
              in for_loop 0 (xDimension grid - 1) (\<lambda>x mesh.
                   if ccw grid then
                     let mesh = addTriangle mesh (x + current) (x + next) ((x + 1) + next);
                         mesh = addTriangle mesh (x + current) ((x + 1) + next) ((x + 1) + current)
                     in mesh
                   else
                     let mesh = addTriangle mesh (x + current) ((x + 1) + next) (x + next);
                         mesh = addTriangle mesh (x + current) ((x + 1) + current) ((x + 1) + next)
                     in mesh) mesh) mesh;
            mesh = generateNormals g mesh (creaseAngle' grid);
            mesh = (if enableTextureCoordinate
                    then generateTextureCoordinateForElevationGrid mesh grid else mesh);
            mesh = (if isBoundingBoxUpdateEnabled g then updateBoundingBox mesh else mesh)
        in Some mesh)"

section \<open>Notions used in the statements and proofs\<close>

definition isClosedContour :: "'a list \<Rightarrow> bool" where
  "isClosedContour ps \<longleftrightarrow> ps \<noteq> [] \<and> hd ps = last ps"

definition effectivePointCount :: "'a list \<Rightarrow> nat" where
  "effectivePointCount ps = (if isClosedContour ps then length ps - 1 else length ps)"

definition meshAdd :: "SgMesh \<Rightarrow> Vector3 list \<Rightarrow> int list \<Rightarrow> int list \<Rightarrow> SgMesh" where
  "meshAdd mesh vs ts ns = mesh\<lparr> vertices := vertices mesh @ vs,
     triangleVertices := triangleVertices mesh @ ts, normalIndices := normalIndices mesh @ ns \<rparr>"

definition texOnly :: "SgMesh \<Rightarrow> SgMesh \<Rightarrow> bool" where
  "texOnly m m' \<longleftrightarrow>
     vertices m' = vertices m \<and> triangleVertices m' = triangleVertices m \<and>
     normals m' = normals m \<and> normalIndices m' = normalIndices m \<and>
     normalsCreaseAngle m' = normalsCreaseAngle m \<and> primitive m' = primitive m \<and>
     boundingBox m' = boundingBox m"

definition indicesInBounds :: "SgMesh \<Rightarrow> bool" where
  "indicesInBounds m = list_all (\<lambda>t. 0 \<le> t \<and> t < int (length (vertices m))) (triangleVertices m)"

definition ringTriangles :: "int \<Rightarrow> int \<Rightarrow> int list" where
  "ringTriangles R hdn =
     concat (map (\<lambda>i. [R * hdn, (i + 1) smod hdn, i]) [0..hdn - 1]) @
     concat (map (\<lambda>i. concat (map (\<lambda>j.
        [j + i * hdn, (j + 1) smod hdn + (i + 1) * hdn, j + (i + 1) * hdn,
         j + i * hdn, (j + 1) smod hdn + i * hdn, (j + 1) smod hdn + (i + 1) * hdn])
        [0..hdn - 1])) [0..R - 2]) @
     concat (map (\<lambda>i. [R * hdn + 1, i smod hdn + (R - 1) * hdn, (i + 1) smod hdn + (R - 1) * hdn])
        [0..hdn - 1])"

definition cylinderTriangles :: "int \<Rightarrow> bool \<Rightarrow> bool \<Rightarrow> bool \<Rightarrow> int list" where
  "cylinderTriangles d bottom top' side =
     concat (map (\<lambda>i.
        (if top' then [2 * d, (i + 1) smod d, i] else []) @
        (if side then [i, (i + 1) smod d + d, i + d, i, (i + 1) smod d, (i + 1) smod d + d] else []) @
        (if bottom then [2 * d + 1, i + d, (i + 1) smod d + d] else [])) [0..d - 1])"



definition gridCellTriangles :: "bool \<Rightarrow> int \<Rightarrow> int \<Rightarrow> int \<Rightarrow> int list" where
  "gridCellTriangles ccw' xd x z =
     (let current = z * xd;
          next = (z + 1) * xd
      in if ccw' then [x + current, x + next, (x + 1) + next, x + current, (x + 1) + next, (x + 1) + current]
         else [x + current, (x + 1) + next, x + next, x + current, (x + 1) + current, (x + 1) + next])"

definition gridTriangles :: "bool \<Rightarrow> int \<Rightarrow> int \<Rightarrow> int list" where
  "gridTriangles ccw' xd zd =
     concat (map (\<lambda>z. concat (map (\<lambda>x. gridCellTriangles ccw' xd x z) [0..xd - 2])) [0..zd - 2])"


definition extrusionSideTriangles :: "int \<Rightarrow> int \<Rightarrow> bool \<Rightarrow> bool \<Rightarrow> int list" where
  "extrusionSideTriangles spineSize crossSectionSize isClosed isCrossSectionClosed =
     concat (map (\<lambda>i. concat (map (\<lambda>j.
        [j + i * crossSectionSize,
         j + (i + 1) smod spineSize * crossSectionSize,
         (j + 1) smod crossSectionSize + (i + 1) smod spineSize * crossSectionSize,
         j + i * crossSectionSize,
         (j + 1) smod crossSectionSize + (i + 1) smod spineSize * crossSectionSize,
         (j + 1) smod crossSectionSize + i * crossSectionSize])
        [0..(if isCrossSectionClosed then crossSectionSize + 1 else crossSectionSize) - 1 - 1]))
        [0..(if isClosed then spineSize + 1 else spineSize) - 1 - 1])"

text \<open>
  The triangles a cap adds: the triangles of the triangulator, read through the
  polygon; the end cap exchanges the second and the third vertex.
\<close>

definition capTriangles :: "bool \<Rightarrow> int list \<Rightarrow> (int \<times> int \<times> int) list \<Rightarrow> int list" where
  "capTriangles isEndCap polygon triangles =
     concat (map (\<lambda>(a, b, c).
        if isEndCap then [polygon ! nat a, polygon ! nat c, polygon ! nat b]
        else [polygon ! nat a, polygon ! nat b, polygon ! nat c]) triangles)"


text \<open>
  Modelled from the spec: a triangulator with the fan output the spec describes, \<open>N - 2\<close>
  triangles for a polygon of \<open>N\<close> corners, all at the first corner.  It serves as the
  collaborator in the examples.
\<close>

definition fanTriangulator :: Triangulator where
  "fanTriangulator vs polygon = map (\<lambda>k. (0, k, k + 1)) [1..int (length polygon) - 2]"

text \<open>Example inputs.\<close>

definition squareExtrusion :: Extrusion where
  "squareExtrusion = \<lparr> crossSection = [(0, 0), (1, 0), (1, 1), (0, 1), (0, 0)],
     spine = [(0, 0, 0), (0, 1, 0)], orientation = [], scale = [],
     creaseAngle = 0, beginCap = True, endCap = True \<rparr>"

definition uncappedSquareExtrusion :: Extrusion where
  "uncappedSquareExtrusion = \<lparr> crossSection = [(0, 0), (1, 0), (1, 1), (0, 1), (0, 0)],
     spine = [(0, 0, 0), (0, 1, 0)], orientation = [], scale = [],
     creaseAngle = 0, beginCap = False, endCap = False \<rparr>"

definition shiftedSquareExtrusion :: Extrusion where
  "shiftedSquareExtrusion = \<lparr> crossSection = [(1, 2), (3, 2), (3, 0), (1, 0), (1, 2)],
     spine = [(0, 0, 0), (0, 1, 0)], orientation = [], scale = [],
     creaseAngle = 0, beginCap = True, endCap = True \<rparr>"


definition unitGrid :: "bool \<Rightarrow> ElevationGrid" where
  "unitGrid c = \<lparr> xDimension = 2, zDimension = 2, xSpacing = 1, zSpacing = 1,
     height = [0, 0, 0, 0], ccw = c, creaseAngle' = 0 \<rparr>"



section \<open>The division number is never negative\<close>

lemma divisionNumber_newMeshGenerator: "divisionNumber newMeshGenerator = 20"
  by (simp add: newMeshGenerator_def defaultDivisionNumber_def)

lemma divisionNumber_setDivisionNumber: "0 \<le> divisionNumber (setDivisionNumber n g)"
  by (simp add: setDivisionNumber_def defaultDivisionNumber_def)

section \<open>Loops\<close>

lemma fold_invariant:
  assumes "P s" and "\<And>i s. i \<in> set xs \<Longrightarrow> P s \<Longrightarrow> P (body i s)"
  shows "P (fold body xs s)"
  using assms by (induction xs arbitrary: s) auto

lemma for_loop_invariant:
  assumes "P s" and "\<And>i s. lo \<le> i \<Longrightarrow> i < hi \<Longrightarrow> P s \<Longrightarrow> P (body i s)"
  shows "P (for_loop lo hi body s)"
  unfolding for_loop_def by (rule fold_invariant) (use assms in auto)

lemma for_loop_keep:
  assumes "\<And>i s. lo \<le> i \<Longrightarrow> i < hi \<Longrightarrow> q (body i s) = q s"
  shows "q (for_loop lo hi body s) = q s"
  by (rule for_loop_invariant[where P="\<lambda>s'. q s' = q s"]) (simp_all add: assms)

lemma for_loop_empty [simp]: "hi \<le> lo \<Longrightarrow> for_loop lo hi body s = s"
  by (simp add: for_loop_def)

section \<open>The normal form of mesh updates\<close>

lemma addTriangle_meshAdd: "addTriangle m a b c = meshAdd m [] [a, b, c] []"
  by (simp add: addTriangle_def meshAdd_def)

lemma push_vertex_meshAdd: "push_vertex m v = meshAdd m [v] [] []"
  by (simp add: push_vertex_def meshAdd_def)

lemma normalIndices_meshAdd: "m\<lparr> normalIndices := normalIndices m @ ns \<rparr> = meshAdd m [] [] ns"
  by (simp add: meshAdd_def)

lemma meshAdd_meshAdd: "meshAdd (meshAdd m vs ts ns) vs' ts' ns' = meshAdd m (vs @ vs') (ts @ ts') (ns @ ns')"
  by (simp add: meshAdd_def)

lemma if_meshAdd:
  "(if c then meshAdd m vs ts ns else m) = meshAdd m (if c then vs else []) (if c then ts else []) (if c then ns else [])"
  "(if c then meshAdd m vs ts ns else meshAdd m vs' ts' ns')
     = meshAdd m (if c then vs else vs') (if c then ts else ts') (if c then ns else ns')"
  by (simp_all add: meshAdd_def)

lemma fold_meshAdd:
  "fold (\<lambda>i m. meshAdd m (V i) (T i) (N i)) xs m0
     = meshAdd m0 (concat (map V xs)) (concat (map T xs)) (concat (map N xs))"
  by (induction xs arbitrary: m0) (simp_all add: meshAdd_def)

lemma for_loop_meshAdd:
  "for_loop lo hi (\<lambda>i m. meshAdd m (V i) (T i) (N i)) m0
     = meshAdd m0 (concat (map V [lo..hi - 1])) (concat (map T [lo..hi - 1])) (concat (map N [lo..hi - 1]))"
  by (simp add: for_loop_def fold_meshAdd)

lemma for_loop_meshAdd_fun:
  "for_loop lo hi (\<lambda>i m. meshAdd m (V i) (T i) (N i))
     = (\<lambda>m0. meshAdd m0 (concat (map V [lo..hi - 1])) (concat (map T [lo..hi - 1]))
          (concat (map N [lo..hi - 1])))"
  by (rule ext) (rule for_loop_meshAdd)

lemmas mesh_norm = addTriangle_meshAdd push_vertex_meshAdd normalIndices_meshAdd meshAdd_meshAdd
  if_meshAdd for_loop_meshAdd for_loop_meshAdd_fun

lemma meshAdd_proj [simp]:
  "vertices (meshAdd m vs ts ns) = vertices m @ vs"
  "triangleVertices (meshAdd m vs ts ns) = triangleVertices m @ ts"
  "normalIndices (meshAdd m vs ts ns) = normalIndices m @ ns"
  "normals (meshAdd m vs ts ns) = normals m"
  "normalsCreaseAngle (meshAdd m vs ts ns) = normalsCreaseAngle m"
  by (simp_all add: meshAdd_def)

lemma meshAdd_update [simp]:
  "(meshAdd m vs ts ns)\<lparr> primitive := p \<rparr> = meshAdd (m\<lparr> primitive := p \<rparr>) vs ts ns"
  "(meshAdd m vs ts ns)\<lparr> normals := n \<rparr> = meshAdd (m\<lparr> normals := n \<rparr>) vs ts ns"
  by (simp_all add: meshAdd_def)

lemma newSgMesh_proj [simp]:
  "vertices newSgMesh = []" "triangleVertices newSgMesh = []"
  "normals newSgMesh = []" "normalIndices newSgMesh = []" "normalsCreaseAngle newSgMesh = None"
  "vertices (newSgMesh\<lparr> primitive := p \<rparr>) = []" "triangleVertices (newSgMesh\<lparr> primitive := p \<rparr>) = []"
  by (simp_all add: newSgMesh_def)

lemma generateNormals_proj [simp]:
  "vertices (generateNormals g m a) = vertices m"
  "triangleVertices (generateNormals g m a) = triangleVertices m"
  "normals (generateNormals g m a) = normals m"
  "normalIndices (generateNormals g m a) = normalIndices m"
  "normalsCreaseAngle (generateNormals g m a)
     = (if isNormalGenerationEnabled g then Some a else normalsCreaseAngle m)"
  by (simp_all add: generateNormals_def MeshFilter_generateNormals_def)

lemma updateBoundingBox_proj [simp]:
  "vertices (updateBoundingBox m) = vertices m"
  "triangleVertices (updateBoundingBox m) = triangleVertices m"
  "normals (updateBoundingBox m) = normals m"
  "normalIndices (updateBoundingBox m) = normalIndices m"
  "normalsCreaseAngle (updateBoundingBox m) = normalsCreaseAngle m"
  by (simp_all add: updateBoundingBox_def)

section \<open>The texture coordinate builders write texture arrays only\<close>

lemma texOnly_pushTexPoint: "texOnly m (fst st) \<Longrightarrow> texOnly m (fst (pushTexPoint p st))"
  by (cases st) (simp add: texOnly_def pushTexPoint_def Let_def)

lemma texOnly_pushTexIndex: "texOnly m (fst st) \<Longrightarrow> texOnly m (fst (pushTexIndex k st))"
  by (cases st) (simp add: texOnly_def pushTexIndex_def)

lemmas texOnly_loop = for_loop_invariant[where P="\<lambda>st. texOnly m (fst st)" for m]

lemmas texOnly_loop' = for_loop_invariant[where P="texOnly m" for m]

lemma texOnly_upd:
  "texOnly m m' \<Longrightarrow> texOnly m (m'\<lparr> texCoords := tc \<rparr>)"
  "texOnly m m' \<Longrightarrow> texOnly m (m'\<lparr> texCoordIndices := ti \<rparr>)"
  by (simp_all add: texOnly_def)

lemma texOnly_Box: "texOnly m (generateTextureCoordinateForBox m)"
  by (simp add: texOnly_def generateTextureCoordinateForBox_def)

lemma texOnly_Sphere: "texOnly m (generateTextureCoordinateForSphere m)"
  unfolding generateTextureCoordinateForSphere_def Let_def
  by (intro texOnly_loop texOnly_pushTexPoint) (simp add: texOnly_def)

lemma texOnly_Cylinder: "texOnly m (generateTextureCoordinateForCylinder m)"
  unfolding generateTextureCoordinateForCylinder_def Let_def
  apply (rule texOnly_loop)
   apply (simp add: texOnly_def)
  apply (simp only: split: if_split)
  apply (intro conjI impI texOnly_loop texOnly_pushTexPoint texOnly_pushTexIndex; assumption?)
  apply (simp split: if_split)
  apply (intro conjI impI texOnly_loop texOnly_pushTexPoint texOnly_pushTexIndex; assumption?)
  done

lemma texOnly_Cone: "texOnly m (generateTextureCoordinateForCone m)"
  unfolding generateTextureCoordinateForCone_def Let_def
  apply (rule texOnly_loop)
   apply (simp add: texOnly_def)
  apply (simp only: split: if_split)
  apply (intro conjI impI texOnly_loop texOnly_pushTexPoint texOnly_pushTexIndex; assumption?)
  apply (simp split: if_split)
  apply (intro conjI impI texOnly_loop texOnly_pushTexPoint texOnly_pushTexIndex; assumption?)
  done

lemma texOnly_ElevationGrid: "texOnly m (generateTextureCoordinateForElevationGrid m grid)"
  unfolding generateTextureCoordinateForElevationGrid_def Let_def
  by (intro texOnly_upd texOnly_loop') (simp_all add: texOnly_def)

lemma texOnly_Extrusion: "texOnly m (generateTextureCoordinateForExtrusion m cs sp nb ne ie)"
  unfolding generateTextureCoordinateForExtrusion_def Let_def case_prod_beta
  apply (simp only: split: if_split)
  apply (intro conjI impI texOnly_upd texOnly_loop'; (assumption | simp add: texOnly_def)?)
  done

lemmas tex_proj [simp] =
  texOnly_Box[unfolded texOnly_def] texOnly_Sphere[unfolded texOnly_def]
  texOnly_Cylinder[unfolded texOnly_def] texOnly_Cone[unfolded texOnly_def]
  texOnly_ElevationGrid[unfolded texOnly_def] texOnly_Extrusion[unfolded texOnly_def]

section \<open>Arithmetic of the index expressions\<close>

lemma smod_next: "0 \<le> i \<Longrightarrow> 0 < d \<Longrightarrow> 0 \<le> (i + 1) smod d \<and> (i + 1) smod d < (d::int)"
  by (simp add: smod_mod_positive)

lemma smod_this: "0 \<le> i \<Longrightarrow> 0 < d \<Longrightarrow> 0 \<le> i smod d \<and> i smod d < (d::int)"
  by (simp add: smod_mod_positive)

lemma sdiv_nonneg: "0 \<le> a \<Longrightarrow> 0 \<le> b \<Longrightarrow> a sdiv b = a div (b::int)"
  by (cases "a = 0"; cases "b = 0") (simp_all add: signed_divide_int_def)

lemma row_index_bound:
  fixes i j k n :: int
  assumes "0 \<le> j" "j < n" "0 \<le> i" "i < k"
  shows "0 \<le> j + i * n \<and> j + i * n < k * n"
proof -
  have "0 \<le> i * n" using assms by simp
  moreover have "(i + 1) * n \<le> k * n"
    using assms by (intro mult_right_mono) auto
  ultimately show ?thesis using assms by (simp add: algebra_simps)
qed

lemma length_concat_map_map [simp]:
  "length (concat (map (\<lambda>i. map (f i) xs) ys)) = length ys * length xs"
  by (induction ys) simp_all

lemma concat_map_Nil [simp]: "concat (map (\<lambda>i. []) xs) = []"
  by (induction xs) simp_all

lemma length_concat_const:
  assumes "\<And>x. x \<in> set xs \<Longrightarrow> length (f x) = k"
  shows "length (concat (map f xs)) = length xs * k"
  using assms by (induction xs) simp_all

section \<open>Closed forms of the generated arrays\<close>

lemma generateSphere_closed_form:
  assumes "0 \<le> radius" "4 \<le> divisionNumber g"
  shows "\<exists>m. generateSphere g radius tc = Some m
    \<and> int (length (vertices m)) = (divisionNumber g div 2 - 1) * divisionNumber g + 2
    \<and> triangleVertices m = ringTriangles (divisionNumber g div 2 - 1) (divisionNumber g)"
proof -
  define d where "d = divisionNumber g"
  have d: "4 \<le> d" using assms by (simp add: d_def)
  then have sd: "d sdiv 2 = d div 2" by (simp add: sdiv_nonneg)
  have v2: "2 \<le> d div 2" using d by simp
  show ?thesis
    using assms d v2
    unfolding generateSphere_def d_def[symmetric]
    by (simp add: Let_def mesh_norm sd ringTriangles_def nat_mult_distrib algebra_simps)
qed




lemma generateDisc_normals:
  assumes "generateDisc g radius innerRadius = Some m"
  shows "normalsCreaseAngle m = None \<and> normals m = [(0, 0, 1)] \<and> set (normalIndices m) \<subseteq> {0}"
  using assms unfolding generateDisc_def
  by (auto simp add: Let_def mesh_norm for_loop_def[of 0 6] cong: if_cong split: if_splits)

lemma cylinder_ring_loop:
  "for_loop lo hi (\<lambda>i m. m\<lparr> vertices := (vertices m)[a i := u i, b i := w i] \<rparr>) m0
     = m0\<lparr> vertices := fold (\<lambda>i xs. xs[a i := u i, b i := w i]) [lo..hi - 1] (vertices m0) \<rparr>"
proof -
  have "fold (\<lambda>i m. m\<lparr> vertices := (vertices m)[a i := u i, b i := w i] \<rparr>) xs m0
     = m0\<lparr> vertices := fold (\<lambda>i xs. xs[a i := u i, b i := w i]) xs (vertices m0) \<rparr>" for xs
    by (induction xs arbitrary: m0) simp_all
  then show ?thesis by (simp add: for_loop_def)
qed

lemma length_fold_update [simp]:
  "length (fold (\<lambda>i xs. xs[a i := u i, b i := w i]) is xs) = length xs"
  by (induction "is" arbitrary: xs) simp_all

lemma generateCylinder_closed_form:
  assumes "0 \<le> radius" "0 \<le> h" "0 \<le> divisionNumber g"
  shows "\<exists>m. generateCylinder g radius h bottom top' side tc = Some m
    \<and> int (length (vertices m)) = 2 * divisionNumber g + 2
    \<and> triangleVertices m = cylinderTriangles (divisionNumber g) bottom top' side"
  using assms unfolding generateCylinder_def
  by (simp add: Let_def cylinder_ring_loop mesh_norm cylinderTriangles_def newSgMesh_def
      add.commute mult.commute cong: if_cong)

lemma generateElevationGrid_closed_form:
  assumes "xDimension grid * zDimension grid = int (length (height grid))"
  shows "\<exists>m. generateElevationGrid g grid tc = Some m
    \<and> length (vertices m) = nat (zDimension grid) * nat (xDimension grid)
    \<and> triangleVertices m = gridTriangles (ccw grid) (xDimension grid) (zDimension grid)"
  using assms unfolding generateElevationGrid_def
  by (simp add: Let_def mesh_norm gridTriangles_def gridCellTriangles_def cong: if_cong)

lemma length_gridTriangles:
  "length (gridTriangles c xd zd) = 3 * (2 * (nat (xd - 1) * nat (zd - 1)))"
  by (simp add: gridTriangles_def gridCellTriangles_def length_concat comp_def sum_list_triv
      Let_def if_distrib[of length] cong: if_cong)




lemma generateBox_closed_form:
  assumes "generateBox g sz tc = Some m"
  shows "vertices m =
      [( vx sz * 0.5,  vy sz * 0.5,  vz sz * 0.5), (- (vx sz * 0.5),  vy sz * 0.5,  vz sz * 0.5),
       (- (vx sz * 0.5), - (vy sz * 0.5),  vz sz * 0.5), ( vx sz * 0.5, - (vy sz * 0.5),  vz sz * 0.5),
       ( vx sz * 0.5,  vy sz * 0.5, - (vz sz * 0.5)), (- (vx sz * 0.5),  vy sz * 0.5, - (vz sz * 0.5)),
       (- (vx sz * 0.5), - (vy sz * 0.5), - (vz sz * 0.5)), ( vx sz * 0.5, - (vy sz * 0.5), - (vz sz * 0.5))]"
    and "triangleVertices m =
      [0,1,2, 2,3,0, 0,5,1, 0,4,5, 1,5,6, 1,6,2, 2,6,7, 2,7,3, 3,7,4, 3,4,0, 4,6,5, 4,7,6]"
  using assms by (auto simp: generateBox_def Let_def newSgMesh_def split: if_splits)

section \<open>Which generators return a mesh\<close>

lemma generateCylinder_not_None:
  "0 \<le> r \<Longrightarrow> 0 \<le> h \<Longrightarrow> generateCylinder g r h b t s tc \<noteq> None"
  by (simp add: generateCylinder_def Let_def)

lemma generateCone_not_None:
  "0 \<le> r \<Longrightarrow> 0 \<le> h \<Longrightarrow> generateCone g r h b s tc \<noteq> None"
  by (simp add: generateCone_def Let_def)

lemma generateCapsule_not_None:
  "0 \<le> r \<Longrightarrow> 0 \<le> h \<Longrightarrow> generateCapsule g r h \<noteq> None"
  by (simp add: generateCapsule_def Let_def)

lemma generateSphere_None_iff:
  "generateSphere g r tc = None \<longleftrightarrow> r < 0 \<or> divisionNumber g < 4"
  by (simp add: generateSphere_def Let_def)

lemma generateBox_None_iff:
  "generateBox g sz tc = None \<longleftrightarrow> vx sz < 0 \<or> vy sz < 0 \<or> vz sz < 0"
  by (simp add: generateBox_def Let_def)

lemma generateCylinder_None_iff:
  "generateCylinder g r h b t s tc = None \<longleftrightarrow> h < 0 \<or> r < 0"
  by (simp add: generateCylinder_def Let_def)

lemma generateCone_None_iff:
  "generateCone g r h b s tc = None \<longleftrightarrow> r < 0 \<or> h < 0"
  by (simp add: generateCone_def Let_def)

lemma generateCapsule_None_iff:
  "generateCapsule g r h = None \<longleftrightarrow> h < 0 \<or> r < 0"
  by (simp add: generateCapsule_def Let_def)

lemma generateDisc_None_iff:
  "generateDisc g r ir = None \<longleftrightarrow> ir \<le> 0 \<or> r \<le> ir"
  by (simp add: generateDisc_def Let_def)

lemma generateElevationGrid_None_iff:
  "generateElevationGrid g grid tc = None
     \<longleftrightarrow> xDimension grid * zDimension grid \<noteq> int (length (height grid))"
  by (simp add: generateElevationGrid_def Let_def)

lemma generateTorus_arc_not_None: "generateTorus_arc g r c ba ea \<noteq> None"
  by (simp add: generateTorus_arc_def Let_def case_prod_beta)

section \<open>The crease angle handed to the normal generator\<close>

lemma box_crease:
  "isNormalGenerationEnabled g \<Longrightarrow> generateBox g sz tc = Some m \<Longrightarrow> normalsCreaseAngle m = Some 0"
  by (auto simp: generateBox_def Let_def split: if_splits)

lemma sphere_crease:
  "isNormalGenerationEnabled g \<Longrightarrow> generateSphere g r tc = Some m \<Longrightarrow> normalsCreaseAngle m = Some pi"
  by (auto simp: generateSphere_def Let_def split: if_splits)

lemma cylinder_crease:
  "isNormalGenerationEnabled g \<Longrightarrow> generateCylinder g r h b t s tc = Some m
     \<Longrightarrow> normalsCreaseAngle m = Some (pi / 2)"
  by (auto simp: generateCylinder_def Let_def split: if_splits)

lemma cone_crease:
  "isNormalGenerationEnabled g \<Longrightarrow> generateCone g r h b s tc = Some m
     \<Longrightarrow> normalsCreaseAngle m = Some (pi / 2)"
  by (auto simp: generateCone_def Let_def split: if_splits)

lemma capsule_crease:
  "isNormalGenerationEnabled g \<Longrightarrow> generateCapsule g r h = Some m
     \<Longrightarrow> normalsCreaseAngle m = Some (pi / 2)"
  by (auto simp: generateCapsule_def Let_def split: if_splits)

lemma torus_crease:
  "isNormalGenerationEnabled g \<Longrightarrow> generateTorus_arc g r c ba ea = Some m
     \<Longrightarrow> normalsCreaseAngle m = Some pi"
  unfolding generateTorus_arc_def Let_def case_prod_beta
  by (auto split: if_splits)

lemma grid_crease:
  "isNormalGenerationEnabled g \<Longrightarrow> generateElevationGrid g grid tc = Some m
     \<Longrightarrow> normalsCreaseAngle m = Some (creaseAngle' grid)"
  unfolding generateElevationGrid_def Let_def
  by (auto split: if_splits)

lemma extrudeMesh_crease:
  "isNormalGenerationEnabled g \<Longrightarrow>
     normalsCreaseAngle (extrudeMesh g tri e tc ss cs ic icc) = Some (creaseAngle e)"
  unfolding extrudeMesh_def
  apply (simp only: Let_def case_prod_beta)
  apply (simp only: if_distrib[of normalsCreaseAngle] tex_proj generateNormals_proj
      updateBoundingBox_proj if_cancel if_True)
  done

lemma extrusion_crease:
  "isNormalGenerationEnabled g \<Longrightarrow> generateExtrusion g tri e tc = Some m
     \<Longrightarrow> normalsCreaseAngle m = Some (creaseAngle e)"
  by (auto simp: generateExtrusion_def Let_def extrudeMesh_crease split: if_splits)

section \<open>Closure of a contour\<close>

lemma closed_nth:
  assumes "2 \<le> length ps"
  shows "(ps ! 0 = ps ! nat (int (length ps) - 1)) = isClosedContour ps"
proof -
  from assms have "ps \<noteq> []" by auto
  moreover have "nat (int (length ps) - 1) = length ps - 1" by simp
  ultimately show ?thesis
    by (simp add: isClosedContour_def hd_conv_nth last_conv_nth)
qed

section \<open>Bounds and lengths of the closed forms\<close>

lemma cell_index:
  fixes i j R n :: int
  assumes "0 \<le> j" "j < n" "0 \<le> i" "i < R"
  shows "0 \<le> j + i * n" "j + i * n < R * n + 2"
  using row_index_bound [OF assms] by simp_all

lemma ball_concat_map:
  assumes "\<And>x. x \<in> set xs \<Longrightarrow> \<forall>t \<in> set (f x). P t"
  shows "\<forall>t \<in> set (concat (map f xs)). P t"
  using assms by auto

lemma ringTriangles_in_bounds:
  assumes R: "1 \<le> R" and n: "1 \<le> n"
  shows "\<forall>t \<in> set (ringTriangles R n). 0 \<le> t \<and> t < R * n + 2"
proof -
  define P where "P t \<longleftrightarrow> 0 \<le> t \<and> t < R * n + 2" for t
  have nxt: "0 \<le> (j + 1) smod n" "(j + 1) smod n < n" if "0 \<le> j" for j
    using smod_next [of j n] that n by simp_all
  have ths: "0 \<le> j smod n" "j smod n < n" if "0 \<le> j" for j
    using smod_this [of j n] that n by simp_all
  have Rn: "0 \<le> R * n" "n \<le> R * n"
    using R n mult_right_mono [of 1 R n] by simp_all
  have b0: "P j" if "0 \<le> j" "j < n" for j
    unfolding P_def using that Rn by linarith
  have b1: "P (j + i * n)" if "0 \<le> j" "j < n" "0 \<le> i" "i < R" for i j
    unfolding P_def using cell_index [OF that] by simp
  have poles: "P (R * n)" "P (R * n + 1)"
    unfolding P_def using Rn by simp_all
  have top: "\<forall>t \<in> set (concat (map (\<lambda>i. [R * n, (i + 1) smod n, i]) [0..n - 1])). P t"
  proof (rule ball_concat_map)
    fix i assume "i \<in> set [0..n - 1]"
    then have i: "0 \<le> i" "i < n" by auto
    show "\<forall>t \<in> set [R * n, (i + 1) smod n, i]. P t"
      using poles b0 [OF i] b0 [OF nxt [OF i(1)]] by simp
  qed
  have side: "\<forall>t \<in> set (concat (map (\<lambda>i. concat (map (\<lambda>j.
        [j + i * n, (j + 1) smod n + (i + 1) * n, j + (i + 1) * n,
         j + i * n, (j + 1) smod n + i * n, (j + 1) smod n + (i + 1) * n])
        [0..n - 1])) [0..R - 2])). P t"
  proof (intro ball_concat_map)
    fix i j assume "i \<in> set [0..R - 2]" "j \<in> set [0..n - 1]"
    then have i: "0 \<le> i" "i < R" "0 \<le> i + 1" "i + 1 < R" and j: "0 \<le> j" "j < n" by auto
    show "\<forall>t \<in> set [j + i * n, (j + 1) smod n + (i + 1) * n, j + (i + 1) * n,
         j + i * n, (j + 1) smod n + i * n, (j + 1) smod n + (i + 1) * n]. P t"
      using b1 [OF j i(1,2)] b1 [OF j i(3,4)] b1 [OF nxt [OF j(1)] i(1,2)]
        b1 [OF nxt [OF j(1)] i(3,4)]
      by simp
  qed
  have bottom: "\<forall>t \<in> set (concat (map (\<lambda>i.
        [R * n + 1, i smod n + (R - 1) * n, (i + 1) smod n + (R - 1) * n]) [0..n - 1])). P t"
  proof (rule ball_concat_map)
    fix i assume "i \<in> set [0..n - 1]"
    then have i: "0 \<le> i" "i < n" by auto
    have r: "0 \<le> R - 1" "R - 1 < R" using R by simp_all
    show "\<forall>t \<in> set [R * n + 1, i smod n + (R - 1) * n, (i + 1) smod n + (R - 1) * n]. P t"
      using poles b1 [OF ths [OF i(1)] r] b1 [OF nxt [OF i(1)] r] by simp
  qed
  from top side bottom show ?thesis
    unfolding ringTriangles_def P_def set_append by blast
qed

lemma length_ringTriangles:
  assumes "1 \<le> R"
  shows "int (length (ringTriangles R n)) = 3 * (R * (if 0 \<le> n then n else 0) * 2)"
  using assms
  by (simp add: ringTriangles_def length_concat comp_def sum_list_triv algebra_simps
      nat_mult_distrib)










section \<open>Vertex positions\<close>

lemma sphere_point_norm:
  assumes "0 \<le> r"
  shows "vnorm (r * sin a * cos b, r * cos a, r * sin a * sin b) = r"
proof -
  have "(r * sin a * cos b) * (r * sin a * cos b) + (r * cos a) * (r * cos a)
        + (r * sin a * sin b) * (r * sin a * sin b)
      = r\<^sup>2 * ((sin a)\<^sup>2 * ((cos b)\<^sup>2 + (sin b)\<^sup>2) + (cos a)\<^sup>2)"
    by algebra
  also have "\<dots> = r\<^sup>2" by simp
  finally show ?thesis
    using assms by (simp add: vnorm_def vx_def vy_def vz_def)
qed

lemma pole_norm:
  assumes "0 \<le> r"
  shows "vnorm (0, r, 0) = r" "vnorm (0, - r, 0) = r"
  using assms by (simp_all add: vnorm_def vx_def vy_def vz_def)

lemma generateSphere_vertex_norm:
  assumes "generateSphere g radius tc = Some m" "v \<in> set (vertices m)"
  shows "vnorm v = radius"
proof -
  from assms(1) have r: "0 \<le> radius"
    by (auto simp: generateSphere_def split: if_splits)
  from assms r show ?thesis
    unfolding generateSphere_def
    by (auto simp add: Let_def mesh_norm sphere_point_norm pole_norm split: if_splits)
qed

lemma set_fold_update_const:
  assumes "set xs \<subseteq> {z}"
  shows "set (fold (\<lambda>i xs. xs[a i := z, b i := z]) is xs) \<subseteq> {z}"
  using assms
proof (induction "is" arbitrary: xs)
  case Nil
  then show ?case by simp
next
  case (Cons i "is")
  have "set (xs[a i := z, b i := z]) \<subseteq> {z}"
    using Cons.prems set_update_subset_insert [of "xs[a i := z]" "b i" z]
      set_update_subset_insert [of xs "a i" z] by auto
  from Cons.IH [OF this] show ?case by simp
qed

lemma in_fold_update_replicate:
  assumes "x \<in> set (fold (\<lambda>i xs. xs[a i := z, b i := z]) is (replicate n z))"
  shows "x = z"
proof -
  have "set (replicate n z) \<subseteq> {z}" by auto
  from set_fold_update_const [OF this, of a b "is"] assms show ?thesis by blast
qed

lemma zero_box:
  "\<exists>m. generateBox g (0, 0, 0) tc = Some m \<and> length (vertices m) = 8
     \<and> length (triangleVertices m) = 36 \<and> set (vertices m) \<subseteq> {(0, 0, 0)}"
proof -
  obtain m where m: "generateBox g (0, 0, 0) tc = Some m"
    using generateBox_None_iff [of g "(0, 0, 0)" tc] by (auto simp: vx_def vy_def vz_def)
  from generateBox_closed_form [OF m] m show ?thesis
    by (simp add: vx_def vy_def vz_def)
qed

lemma zero_sphere:
  assumes "generateSphere g 0 tc = Some m"
  shows "set (vertices m) \<subseteq> {(0, 0, 0)}"
  using assms unfolding generateSphere_def
  by (auto simp add: Let_def mesh_norm split: if_splits)

lemma zero_cylinder:
  assumes "generateCylinder g 0 0 b t s tc = Some m"
  shows "set (vertices m) \<subseteq> {(0, 0, 0)}"
  using assms unfolding generateCylinder_def
  by (auto simp add: Let_def mesh_norm cylinder_ring_loop newSgMesh_def
      cong: if_cong split: if_splits dest: in_fold_update_replicate)

lemma zero_cone:
  assumes "generateCone g 0 0 b s tc = Some m"
  shows "set (vertices m) \<subseteq> {(0, 0, 0)}"
  using assms unfolding generateCone_def
  by (auto simp add: Let_def mesh_norm cong: if_cong split: if_splits)

lemma zero_capsule:
  assumes "generateCapsule g 0 0 = Some m"
  shows "set (vertices m) \<subseteq> {(0, 0, 0)}"
  using assms unfolding generateCapsule_def
  by (auto simp add: Let_def mesh_norm case_prod_beta cong: if_cong split: if_splits)

section \<open>Indices and triangle counts of the generated meshes\<close>

lemma indicesInBounds_iff:
  "indicesInBounds m \<longleftrightarrow> (\<forall>t \<in> set (triangleVertices m). 0 \<le> t \<and> t < int (length (vertices m)))"
  by (simp add: indicesInBounds_def list_all_iff)




lemma sphere_in_bounds:
  assumes "generateSphere g r tc = Some m"
  shows "indicesInBounds m
    \<and> int (numTriangles m) = (divisionNumber g div 2 - 1) * divisionNumber g * 2
    \<and> 0 < numTriangles m"
proof -
  from assms have r: "0 \<le> r" and d: "4 \<le> divisionNumber g"
    by (auto simp: generateSphere_def split: if_splits)
  then have R: "1 \<le> divisionNumber g div 2 - 1" and n: "1 \<le> divisionNumber g" by simp_all
  from generateSphere_closed_form [OF r d, of tc] assms
  have m: "int (length (vertices m)) = (divisionNumber g div 2 - 1) * divisionNumber g + 2"
    "triangleVertices m = ringTriangles (divisionNumber g div 2 - 1) (divisionNumber g)"
    by auto
  have len: "int (length (triangleVertices m)) = 3 * ((divisionNumber g div 2 - 1) * divisionNumber g * 2)"
    using length_ringTriangles [OF R, of "divisionNumber g"] n m by simp
  then have nt: "int (numTriangles m) = (divisionNumber g div 2 - 1) * divisionNumber g * 2"
    by (simp add: numTriangles_def zdiv_int)
  moreover have "0 < (divisionNumber g div 2 - 1) * divisionNumber g * 2"
    using R n by simp
  ultimately have "0 < numTriangles m" by linarith
  with nt ringTriangles_in_bounds [OF R n] m show ?thesis
    by (simp add: indicesInBounds_iff)
qed









section \<open>Counts do not depend on the dimensions\<close>

lemma cylinder_counts_independent:
  assumes "0 \<le> r" "0 \<le> h" "0 \<le> r'" "0 \<le> h'"
  shows "\<exists>m m'. generateCylinder g r h b t s tc = Some m
    \<and> generateCylinder g r' h' b t s tc = Some m'
    \<and> length (vertices m) = length (vertices m') \<and> triangleVertices m = triangleVertices m'"
  using assms unfolding generateCylinder_def
  by (simp add: Let_def mesh_norm cylinder_ring_loop newSgMesh_def cong: if_cong)

lemma cone_counts_independent:
  assumes "0 \<le> r" "0 \<le> h" "0 \<le> r'" "0 \<le> h'"
  shows "\<exists>m m'. generateCone g r h b s tc = Some m
    \<and> generateCone g r' h' b s tc = Some m'
    \<and> length (vertices m) = length (vertices m') \<and> triangleVertices m = triangleVertices m'"
  using assms unfolding generateCone_def
  by (simp add: Let_def mesh_norm cong: if_cong)

lemma capsule_counts_independent:
  assumes "0 \<le> r" "0 \<le> h" "0 \<le> r'" "0 \<le> h'"
  shows "\<exists>m m'. generateCapsule g r h = Some m
    \<and> generateCapsule g r' h' = Some m'
    \<and> length (vertices m) = length (vertices m') \<and> triangleVertices m = triangleVertices m'"
  using assms unfolding generateCapsule_def
  by (simp add: Let_def mesh_norm case_prod_beta cong: if_cong)

lemma sphere_counts_independent:
  assumes "0 \<le> r" "0 \<le> r'" "4 \<le> divisionNumber g"
  shows "\<exists>m m'. generateSphere g r tc = Some m
    \<and> generateSphere g r' tc = Some m'
    \<and> length (vertices m) = length (vertices m') \<and> triangleVertices m = triangleVertices m'"
  using assms unfolding generateSphere_def
  by (simp add: Let_def mesh_norm cong: if_cong)

section \<open>The extrusion\<close>

lemma for_loop_snoc:
  "for_loop lo hi (\<lambda>i xs. xs @ [f i]) xs0 = xs0 @ map f [lo..hi - 1]"
proof -
  have "fold (\<lambda>i xs. xs @ [f i]) is xs0 = xs0 @ map f is" for "is"
    by (induction "is" arbitrary: xs0) simp_all
  then show ?thesis by (simp add: for_loop_def)
qed

lemma fold_cap:
  "fold (\<lambda>(a, b, c) m. meshAdd m [] (T a b c) []) ts m0
     = meshAdd m0 [] (concat (map (\<lambda>(a, b, c). T a b c) ts)) []"
  by (induction ts arbitrary: m0) (auto simp: meshAdd_def)

lemma extrusionVertices_triangles [simp]:
  "triangleVertices (extrusionVertices e ss cs ic m0) = triangleVertices m0"
  unfolding extrusionVertices_def Let_def case_prod_beta
  by (rule for_loop_keep [where q = "\<lambda>s. triangleVertices (fst s)", THEN trans])
    (simp_all add: mesh_norm)

lemma for_loop_fst_length:
  assumes "\<And>i s. length (vertices (fst (body i s))) = length (vertices (fst s)) + k"
  shows "length (vertices (fst (for_loop lo hi body st)))
     = length (vertices (fst st)) + nat (hi - lo) * k"
proof -
  have "length (vertices (fst (fold body is st))) = length (vertices (fst st)) + length is * k" for "is"
    by (induction "is" arbitrary: st) (simp_all add: assms)
  then show ?thesis by (simp add: for_loop_def)
qed

lemma extrusionVertices_length:
  "length (vertices (extrusionVertices e ss cs ic m0)) = length (vertices m0) + nat ss * nat cs"
  unfolding extrusionVertices_def Let_def case_prod_beta
  by (rule for_loop_fst_length [where k = "nat cs", THEN trans]) (simp_all add: mesh_norm)

lemma extrudeMesh_triangles:
  "triangleVertices (extrudeMesh g tri e tc ss cs ic icc) =
     extrusionSideTriangles ss cs ic icc
     @ (if beginCap e \<and> \<not> ic
        then capTriangles False (map (\<lambda>i. i) [0..cs - 1])
               (tri (vertices (extrudeMesh g tri e tc ss cs ic icc)) (map (\<lambda>i. i) [0..cs - 1]))
        else [])
     @ (if endCap e \<and> \<not> ic
        then capTriangles True (map (\<lambda>i. cs * (ss - 1) + i) [0..cs - 1])
               (tri (vertices (extrudeMesh g tri e tc ss cs ic icc))
                  (map (\<lambda>i. cs * (ss - 1) + i) [0..cs - 1]))
        else [])"
  unfolding extrudeMesh_def
  apply (simp only: Let_def case_prod_beta)
  by (cases "beginCap e"; cases "endCap e"; cases ic;
      simp add: mesh_norm fold_cap for_loop_snoc if_distrib[of triangleVertices]
        if_distrib[of vertices] extrusionSideTriangles_def
        capTriangles_def case_prod_beta
        cong: if_cong split del: if_split)

lemma extrudeMesh_vertices_length:
  "length (vertices (extrudeMesh g tri e tc ss cs ic icc)) = nat ss * nat cs"
  unfolding extrudeMesh_def
  apply (simp only: Let_def case_prod_beta)
  by (cases "beginCap e"; cases "endCap e"; cases ic;
      simp add: mesh_norm fold_cap for_loop_snoc 
        if_distrib[of vertices] extrusionVertices_length
        cong: if_cong split del: if_split)

lemma upto_small:
  "[0..3] = [0, 1, 2, 3]" "[0..1] = [0, 1]" "[0..0] = [0]" "[1..2] = [1, 2]"
  "[1..4] = [1, 2, 3, 4]" "[0..4] = [0, 1, 2, 3, 4]" "[1..1] = [1]"
  by (simp_all add: upto.simps)

lemma side_2_4:
  "extrusionSideTriangles 2 4 False True
     = [0,4,5, 0,5,1, 1,5,6, 1,6,2, 2,6,7, 2,7,3, 3,7,4, 3,4,0]"
  by (simp add: extrusionSideTriangles_def upto_small signed_modulo_int_def)

lemma generateExtrusion_square:
  assumes "spine e = [p, q]" "p \<noteq> q" "crossSection e = [a, b, c, d, a]"
  shows "generateExtrusion g tri e tc = Some (extrudeMesh g tri e tc 2 4 False True)"
  using assms by (simp add: generateExtrusion_def Let_def)

lemma length_capTriangles: "length (capTriangles r poly ts) = 3 * length ts"
  by (simp add: capTriangles_def length_concat comp_def case_prod_beta sum_list_triv
      if_distrib[of length] cong: if_cong)


lemma fan_4: "fanTriangulator vs [x0, x1, x2, x3] = [(0, 1, 2), (0, 2, 3)]"
  by (simp add: fanTriangulator_def upto_small)

lemma effectivePointCount_int:
  assumes "2 \<le> length ps"
  shows "int (effectivePointCount ps)
      = (if isClosedContour ps then int (length ps) - 1 else int (length ps))"
  using assms by (simp add: effectivePointCount_def of_nat_diff)

lemma generateExtrusion_unfold:
  assumes "2 \<le> length (spine e)" "2 \<le> length (crossSection e)"
  shows "generateExtrusion g tri e tc =
     (if int (effectivePointCount (spine e)) < 2 \<or> int (effectivePointCount (crossSection e)) < 2
      then None
      else Some (extrudeMesh g tri e tc (int (effectivePointCount (spine e)))
             (int (effectivePointCount (crossSection e)))
             (isClosedContour (spine e)) (isClosedContour (crossSection e))))"
proof -
  have len: "\<not> int (length (spine e)) < 2" "\<not> int (length (crossSection e)) < 2"
    using assms by simp_all
  show ?thesis
    using assms
    by (simp add: generateExtrusion_def Let_def len closed_nth effectivePointCount_int
        del: of_nat_less_iff)
qed

lemma generateExtrusion_short:
  assumes "\<not> (2 \<le> length (spine e) \<and> 2 \<le> length (crossSection e))"
  shows "generateExtrusion g tri e tc = None"
    and "effectivePointCount (spine e) < 2 \<or> effectivePointCount (crossSection e) < 2"
  using assms by (auto simp: generateExtrusion_def effectivePointCount_def Let_def)

section \<open>Indices and triangle count of the extrusion\<close>







section \<open>The arrow\<close>


section \<open>Texture coordinates of the extrusion caps\<close>

lemma extrudeMesh_texture:
  assumes "beginCap e" "endCap e"
  shows "\<exists>M. extrudeMesh g fanTriangulator e True 2 4 False icc
     = generateTextureCoordinateForExtrusion M (crossSection e) (spine e) 2 2 4"
  unfolding extrudeMesh_def
  apply (simp only: Let_def case_prod_beta)
  using assms
  apply (simp add: for_loop_snoc upto_small fan_4 split del: if_split cong: if_cong)
  apply blast
  done

lemma texCoords_fold_indices [simp]:
  "texCoords (fold (\<lambda>i mesh. mesh\<lparr> texCoordIndices := F i mesh \<rparr>) is m) = texCoords m"
  by (induction "is" arbitrary: m) simp_all

lemma shifted_square_cap_uv:
  "drop 10 (texCoords (generateTextureCoordinateForExtrusion M
      [(1, 2), (3, 2), (3, 0), (1, 0), (1, 2)] [(0, 0, 0), (0, 1, 0)] 2 2 4))
   = [(0, 1), (1, 1), (1, -1), (0, -1), (0, 1),  (1, 1), (0, 1), (0, -1), (1, -1), (1, 1)]"
  unfolding generateTextureCoordinateForExtrusion_def
  by (simp add: Let_def case_prod_beta for_loop_def upto_small vx_def vy_def vz_def)

section \<open>Triangle indices\<close>




section \<open>The sphere\<close>

text \<open>
  C4.  For a radius \<open>r \<ge> 0\<close> and a division number \<open>d \<ge> 4\<close>, \<open>generateSphere\<close>
  returns a mesh with \<open>(d/2 - 1) * d + 2\<close> vertices and \<open>(d/2 - 1) * d * 2\<close>
  triangles, and every vertex has distance \<open>r\<close> from the origin.  Coordinates are
  real numbers here, so the distance is exact.
\<close>

theorem generateSphere_counts_and_norms:
  assumes "0 \<le> r" "4 \<le> divisionNumber g"
  shows "\<exists>m. generateSphere g r tc = Some m
    \<and> int (length (vertices m)) = (divisionNumber g div 2 - 1) * divisionNumber g + 2
    \<and> int (numTriangles m) = (divisionNumber g div 2 - 1) * divisionNumber g * 2
    \<and> (\<forall>v \<in> set (vertices m). vnorm v = r)"
proof -
  obtain m where m: "generateSphere g r tc = Some m"
    "int (length (vertices m)) = (divisionNumber g div 2 - 1) * divisionNumber g + 2"
    using generateSphere_closed_form [OF assms, of tc] by blast
  with sphere_in_bounds [OF m(1)] generateSphere_vertex_norm [OF m(1)] show ?thesis
    by simp
qed

theorem generateSphere_counts_and_norms_witness:
  "(0::real) \<le> 1 \<and> 4 \<le> divisionNumber (setDivisionNumber 4 newMeshGenerator)
    \<and> generateSphere (setDivisionNumber 4 newMeshGenerator) 1 False \<noteq> None
    \<and> length (vertices (the (generateSphere (setDivisionNumber 4 newMeshGenerator) 1 False))) = 6
    \<and> numTriangles (the (generateSphere (setDivisionNumber 4 newMeshGenerator) 1 False)) = 8
    \<and> list_all (\<lambda>v. vnorm v = 1)
         (vertices (the (generateSphere (setDivisionNumber 4 newMeshGenerator) 1 False)))"
proof -
  let ?g = "setDivisionNumber 4 newMeshGenerator"
  have d: "divisionNumber ?g = 4" by (simp add: setDivisionNumber_def)
  then have d4: "4 \<le> divisionNumber ?g" by simp
  have r: "(0::real) \<le> 1" by simp
  from generateSphere_counts_and_norms [OF r d4, of False] d show ?thesis
    by (auto simp: list_all_iff)
qed

section \<open>Zero dimensions\<close>

text \<open>
  C10.  Zero dimensions are accepted.  \<open>generateBox\<close> with size \<open>(0, 0, 0)\<close> returns
  a mesh of 8 vertices and 12 triangles.  \<open>generateSphere\<close> with radius 0 (for a
  division number of at least 4) and \<open>generateCylinder\<close>, \<open>generateCone\<close> and
  \<open>generateCapsule\<close> with radius 0 and height 0 return a mesh with as many vertices
  and with the same triangles as for positive dimensions.  All vertices of these meshes
  are the origin.
\<close>

theorem zero_dimensions_accepted:
  "(\<exists>m. generateBox g (0, 0, 0) tc = Some m \<and> length (vertices m) = 8 \<and> numTriangles m = 12
       \<and> set (vertices m) \<subseteq> {(0, 0, 0)})
   \<and> (4 \<le> divisionNumber g \<and> 0 < r \<longrightarrow>
        (\<exists>m m'. generateSphere g 0 tc = Some m \<and> generateSphere g r tc = Some m'
           \<and> length (vertices m) = length (vertices m') \<and> numTriangles m = numTriangles m'
           \<and> set (vertices m) \<subseteq> {(0, 0, 0)}))
   \<and> (0 < r \<and> 0 < h \<longrightarrow>
        (\<exists>m m'. generateCylinder g 0 0 b t s tc = Some m \<and> generateCylinder g r h b t s tc = Some m'
           \<and> length (vertices m) = length (vertices m') \<and> numTriangles m = numTriangles m'
           \<and> set (vertices m) \<subseteq> {(0, 0, 0)})
      \<and> (\<exists>m m'. generateCone g 0 0 b s tc = Some m \<and> generateCone g r h b s tc = Some m'
           \<and> length (vertices m) = length (vertices m') \<and> numTriangles m = numTriangles m'
           \<and> set (vertices m) \<subseteq> {(0, 0, 0)})
      \<and> (\<exists>m m'. generateCapsule g 0 0 = Some m \<and> generateCapsule g r h = Some m'
           \<and> length (vertices m) = length (vertices m') \<and> numTriangles m = numTriangles m'
           \<and> set (vertices m) \<subseteq> {(0, 0, 0)}))"
proof (intro conjI impI)
  show "\<exists>m. generateBox g (0, 0, 0) tc = Some m \<and> length (vertices m) = 8 \<and> numTriangles m = 12
       \<and> set (vertices m) \<subseteq> {(0, 0, 0)}"
    using zero_box [of g tc] by (auto simp: numTriangles_def)
next
  assume "4 \<le> divisionNumber g \<and> 0 < r"
  then show "\<exists>m m'. generateSphere g 0 tc = Some m \<and> generateSphere g r tc = Some m'
           \<and> length (vertices m) = length (vertices m') \<and> numTriangles m = numTriangles m'
           \<and> set (vertices m) \<subseteq> {(0, 0, 0)}"
    using sphere_counts_independent [of 0 r g tc] zero_sphere [of g tc]
    by (auto simp: numTriangles_def)
next
  assume "0 < r \<and> 0 < h"
  then show "\<exists>m m'. generateCylinder g 0 0 b t s tc = Some m \<and> generateCylinder g r h b t s tc = Some m'
           \<and> length (vertices m) = length (vertices m') \<and> numTriangles m = numTriangles m'
           \<and> set (vertices m) \<subseteq> {(0, 0, 0)}"
    using cylinder_counts_independent [of 0 0 r h g b t s tc] zero_cylinder [of g b t s tc]
    by (auto simp: numTriangles_def)
next
  assume "0 < r \<and> 0 < h"
  then show "\<exists>m m'. generateCone g 0 0 b s tc = Some m \<and> generateCone g r h b s tc = Some m'
           \<and> length (vertices m) = length (vertices m') \<and> numTriangles m = numTriangles m'
           \<and> set (vertices m) \<subseteq> {(0, 0, 0)}"
    using cone_counts_independent [of 0 0 r h g b s tc] zero_cone [of g b s tc]
    by (auto simp: numTriangles_def)
next
  assume "0 < r \<and> 0 < h"
  then show "\<exists>m m'. generateCapsule g 0 0 = Some m \<and> generateCapsule g r h = Some m'
           \<and> length (vertices m) = length (vertices m') \<and> numTriangles m = numTriangles m'
           \<and> set (vertices m) \<subseteq> {(0, 0, 0)}"
    using capsule_counts_independent [of 0 0 r h g] zero_capsule [of g]
    by (auto simp: numTriangles_def)
qed

theorem zero_dimensions_accepted_witness:
  "4 \<le> divisionNumber newMeshGenerator \<and> (0::real) < 1
    \<and> generateBox newMeshGenerator (0, 0, 0) False \<noteq> None
    \<and> generateSphere newMeshGenerator 0 False \<noteq> None
    \<and> length (vertices (the (generateSphere newMeshGenerator 0 False)))
        = length (vertices (the (generateSphere newMeshGenerator 1 False)))
    \<and> numTriangles (the (generateSphere newMeshGenerator 0 False))
        = numTriangles (the (generateSphere newMeshGenerator 1 False))
    \<and> generateCylinder newMeshGenerator 0 0 True True True False \<noteq> None
    \<and> numTriangles (the (generateCylinder newMeshGenerator 0 0 True True True False))
        = numTriangles (the (generateCylinder newMeshGenerator 1 1 True True True False))
    \<and> generateCone newMeshGenerator 0 0 True True False \<noteq> None
    \<and> numTriangles (the (generateCone newMeshGenerator 0 0 True True False))
        = numTriangles (the (generateCone newMeshGenerator 1 1 True True False))
    \<and> generateCapsule newMeshGenerator 0 0 \<noteq> None
    \<and> numTriangles (the (generateCapsule newMeshGenerator 0 0))
        = numTriangles (the (generateCapsule newMeshGenerator 1 1))"
proof -
  have d: "4 \<le> divisionNumber newMeshGenerator"
    by (simp add: newMeshGenerator_def defaultDivisionNumber_def)
  from zero_dimensions_accepted [of newMeshGenerator False 1 1 True True True] d
  show ?thesis by auto
qed

section \<open>Negative dimensions\<close>

text \<open>
  C2.  Every generator is to answer a negative dimension with a null mesh.  The box, the
  sphere, the cylinder, the cone and the capsule do (lemmas \<open>generateBox_None_iff\<close> to
  \<open>generateCapsule_None_iff\<close>).  \<open>generateArrow\<close> does not look at its arguments and
  does not look at what \<open>generateCone\<close> and \<open>generateCylinder\<close> return: with the
  cylinder radius \<open>-1\<close> the shaft is a shape without mesh, and the generator in its
  default configuration returns the mesh the integration step hands back, or
  dereferences a null pointer when that step hands back none.  It never returns null.
\<close>

theorem generateArrow_negative_radius:
  "generateArrow newMeshGenerator integrate (-1) 1 1 1 =
     (case integrate (SgGroup
        [SgPosTransform (0, 1, 0) [SgShape (generateCone newMeshGenerator 1 1 True True False)],
         SgShape None]) of
        None \<Rightarrow> Inl NullPointerDereference
      | Some mesh \<Rightarrow> Inr (Some (updateBoundingBox mesh)))
   \<and> generateArrow newMeshGenerator integrate (-1) 1 1 1 \<noteq> Inr None"
  by (simp add: generateArrow_def generateCylinder_None_iff[THEN iffD2] newMeshGenerator_def
      Let_def split: option.split)

section \<open>The division number\<close>

text \<open>
  C3.  The curved solids are to answer a division number below 4 with a null mesh.
  \<open>generateSphere\<close> does.  \<open>generateCylinder\<close>, \<open>generateCone\<close> and
  \<open>generateCapsule\<close> test the radius and the height only (lemmas
  \<open>generateCylinder_None_iff\<close>, \<open>generateCone_None_iff\<close> and
  \<open>generateCapsule_None_iff\<close>): with division number 3 and radius and height 1 each
  of them returns a mesh, the cylinder one of 8 vertices and 12 triangles.  With division
  number 1 the capsule is a mesh of 2 vertices whose two triangles are \<open>(0, 0, 0)\<close>
  and \<open>(1, -1, -1)\<close>, the second with indices outside the vertex array.
\<close>

theorem division_number_below_4:
  "divisionNumber (setDivisionNumber 3 newMeshGenerator) < 4
   \<and> generateSphere (setDivisionNumber 3 newMeshGenerator) 1 False = None
   \<and> generateCylinder (setDivisionNumber 3 newMeshGenerator) 1 1 True True True False \<noteq> None
   \<and> length (vertices (the (generateCylinder (setDivisionNumber 3 newMeshGenerator)
        1 1 True True True False))) = 8
   \<and> numTriangles (the (generateCylinder (setDivisionNumber 3 newMeshGenerator)
        1 1 True True True False)) = 12
   \<and> generateCone (setDivisionNumber 3 newMeshGenerator) 1 1 True True False \<noteq> None
   \<and> generateCapsule (setDivisionNumber 3 newMeshGenerator) 1 1 \<noteq> None
   \<and> divisionNumber (setDivisionNumber 1 newMeshGenerator) < 4
   \<and> generateCapsule (setDivisionNumber 1 newMeshGenerator) 1 1 \<noteq> None
   \<and> length (vertices (the (generateCapsule (setDivisionNumber 1 newMeshGenerator) 1 1))) = 2
   \<and> triangleVertices (the (generateCapsule (setDivisionNumber 1 newMeshGenerator) 1 1))
       = [0, 0, 0, 1, -1, -1]
   \<and> \<not> indicesInBounds (the (generateCapsule (setDivisionNumber 1 newMeshGenerator) 1 1))"
proof -
  let ?g = "setDivisionNumber 3 newMeshGenerator"
  have d: "divisionNumber ?g = 3" by (simp add: setDivisionNumber_def)
  obtain m where m: "generateCylinder ?g 1 1 True True True False = Some m"
    "int (length (vertices m)) = 2 * divisionNumber ?g + 2"
    "triangleVertices m = cylinderTriangles (divisionNumber ?g) True True True"
    using generateCylinder_closed_form [of 1 1 ?g True True True False] d by auto
  have "length (cylinderTriangles 3 True True True) = 36" by code_simp
  with m d have cyl: "generateCylinder ?g 1 1 True True True False \<noteq> None"
    "length (vertices (the (generateCylinder ?g 1 1 True True True False))) = 8"
    "numTriangles (the (generateCylinder ?g 1 1 True True True False)) = 12"
    by (simp_all add: numTriangles_def)
  have three: "generateSphere ?g 1 False = None" "generateCone ?g 1 1 True True False \<noteq> None"
    "generateCapsule ?g 1 1 \<noteq> None"
    using d by (simp_all add: generateSphere_None_iff generateCone_not_None generateCapsule_not_None)
  have cap: "generateCapsule (setDivisionNumber 1 newMeshGenerator) 1 1 \<noteq> None
     \<and> length (vertices (the (generateCapsule (setDivisionNumber 1 newMeshGenerator) 1 1))) = 2
     \<and> triangleVertices (the (generateCapsule (setDivisionNumber 1 newMeshGenerator) 1 1))
        = [0, 0, 0, 1, -1, -1]"
    by (simp add: generateCapsule_def setDivisionNumber_def Let_def for_loop_def upto_small
        mesh_norm signed_divide_int_def signed_modulo_int_def)
  then have "\<not> indicesInBounds (the (generateCapsule (setDivisionNumber 1 newMeshGenerator) 1 1))"
    by (simp add: indicesInBounds_def)
  with cyl three cap d show ?thesis
    by (simp add: setDivisionNumber_def)
qed

section \<open>Closure of spine and cross-section\<close>

text \<open>
  C5.  A contour (the spine or the cross-section) is closed exactly when it has a
  first point that equals its last point, and a closed contour counts one point less.
  \<open>generateExtrusion\<close> returns a null mesh if and only if the spine or the
  cross-section has fewer than 2 points that count.  When it returns a mesh, the mesh
  has one vertex for each pair of a spine point and a cross-section point that count.
\<close>

theorem generateExtrusion_None_iff:
  "(generateExtrusion g tri e tc = None \<longleftrightarrow>
      effectivePointCount (spine e) < 2 \<or> effectivePointCount (crossSection e) < 2)
   \<and> (\<forall>m. generateExtrusion g tri e tc = Some m \<longrightarrow>
         length (vertices m) = effectivePointCount (spine e) * effectivePointCount (crossSection e))"
proof (cases "2 \<le> length (spine e) \<and> 2 \<le> length (crossSection e)")
  case False
  from generateExtrusion_short(1) [OF this, of g tri tc] generateExtrusion_short(2) [OF this]
  show ?thesis by simp
next
  case True
  then have u: "generateExtrusion g tri e tc =
     (if int (effectivePointCount (spine e)) < 2 \<or> int (effectivePointCount (crossSection e)) < 2
      then None
      else Some (extrudeMesh g tri e tc (int (effectivePointCount (spine e)))
             (int (effectivePointCount (crossSection e)))
             (isClosedContour (spine e)) (isClosedContour (crossSection e))))"
    using generateExtrusion_unfold by blast
  show ?thesis
    unfolding u by (auto simp: extrudeMesh_vertices_length)
qed

theorem generateExtrusion_None_iff_witness:
  "effectivePointCount (spine squareExtrusion) = 2
   \<and> effectivePointCount (crossSection squareExtrusion) = 4
   \<and> generateExtrusion newMeshGenerator fanTriangulator squareExtrusion False \<noteq> None
   \<and> length (vertices (the (generateExtrusion newMeshGenerator fanTriangulator squareExtrusion False))) = 8"
proof -
  have e: "effectivePointCount (spine squareExtrusion) = 2"
    "effectivePointCount (crossSection squareExtrusion) = 4"
    by (simp_all add: squareExtrusion_def effectivePointCount_def isClosedContour_def)
  from generateExtrusion_None_iff [of newMeshGenerator fanTriangulator squareExtrusion False] e
  show ?thesis by auto
qed

section \<open>Triangles of an extruded square\<close>

text \<open>
  C6.  For a spine of two different points and a cross-section of four corners with
  the first repeated as the fifth point, the sizes that count are 2 and 4, and
  \<open>generateExtrusion\<close> returns a mesh of 8 vertices.  Its triangle list starts with
  the \<open>(2 - 1) * 4 * 2 = 8\<close> side triangles, whatever the cap flags are.  When the
  begin cap is requested it goes on with the triangles the triangulator returns for the
  polygon \<open>0, 1, 2, 3\<close>, each read through the polygon, and when the end cap is
  requested with those for the polygon \<open>4, 5, 6, 7\<close>, each with its second and third
  vertex exchanged.  Nothing else is appended: without caps there are the 8 side
  triangles, and with both caps the triangles of the triangulator for the two polygons
  in addition.
\<close>

theorem square_extrusion_triangles:
  assumes "spine e = [p, q]" "p \<noteq> q" "crossSection e = [a, b, c, d, a]"
  shows "\<exists>m. generateExtrusion g tri e tc = Some m \<and> length (vertices m) = 8
     \<and> triangleVertices m = [0,4,5, 0,5,1, 1,5,6, 1,6,2, 2,6,7, 2,7,3, 3,7,4, 3,4,0]
         @ (if beginCap e then capTriangles False [0, 1, 2, 3] (tri (vertices m) [0, 1, 2, 3]) else [])
         @ (if endCap e then capTriangles True [4, 5, 6, 7] (tri (vertices m) [4, 5, 6, 7]) else [])
     \<and> numTriangles m
         = 8 + (if beginCap e then length (tri (vertices m) [0, 1, 2, 3]) else 0)
             + (if endCap e then length (tri (vertices m) [4, 5, 6, 7]) else 0)"
proof -
  let ?m = "extrudeMesh g tri e tc 2 4 False True"
  have tv: "triangleVertices ?m = [0,4,5, 0,5,1, 1,5,6, 1,6,2, 2,6,7, 2,7,3, 3,7,4, 3,4,0]
         @ (if beginCap e then capTriangles False [0, 1, 2, 3] (tri (vertices ?m) [0, 1, 2, 3]) else [])
         @ (if endCap e then capTriangles True [4, 5, 6, 7] (tri (vertices ?m) [4, 5, 6, 7]) else [])"
    using extrudeMesh_triangles [of g tri e tc 2 4 False True]
    by (simp add: side_2_4 upto_small)
  have "numTriangles ?m
      = 8 + (if beginCap e then length (tri (vertices ?m) [0, 1, 2, 3]) else 0)
          + (if endCap e then length (tri (vertices ?m) [4, 5, 6, 7]) else 0)"
    by (simp add: numTriangles_def tv length_capTriangles)
  with tv generateExtrusion_square [OF assms(1-3), of g tri tc]
    extrudeMesh_vertices_length [of g tri e tc 2 4 False True]
  show ?thesis by simp
qed

theorem square_extrusion_triangles_witness:
  "spine squareExtrusion = [(0, 0, 0), (0, 1, 0)] \<and> (0, 0, 0) \<noteq> ((0, 1, 0) :: Vector3)
   \<and> crossSection squareExtrusion = [(0, 0), (1, 0), (1, 1), (0, 1), (0, 0)]
   \<and> beginCap squareExtrusion \<and> endCap squareExtrusion
   \<and> triangleVertices (the (generateExtrusion newMeshGenerator fanTriangulator squareExtrusion False))
      = [0,4,5, 0,5,1, 1,5,6, 1,6,2, 2,6,7, 2,7,3, 3,7,4, 3,4,0,  0,1,2, 0,2,3,  4,6,5, 4,7,6]
   \<and> numTriangles (the (generateExtrusion newMeshGenerator fanTriangulator squareExtrusion False)) = 12
   \<and> spine uncappedSquareExtrusion = [(0, 0, 0), (0, 1, 0)]
   \<and> crossSection uncappedSquareExtrusion = [(0, 0), (1, 0), (1, 1), (0, 1), (0, 0)]
   \<and> \<not> beginCap uncappedSquareExtrusion \<and> \<not> endCap uncappedSquareExtrusion
   \<and> triangleVertices (the (generateExtrusion newMeshGenerator fanTriangulator
        uncappedSquareExtrusion False))
      = [0,4,5, 0,5,1, 1,5,6, 1,6,2, 2,6,7, 2,7,3, 3,7,4, 3,4,0]
   \<and> numTriangles (the (generateExtrusion newMeshGenerator fanTriangulator
        uncappedSquareExtrusion False)) = 8"
proof -
  have e: "spine squareExtrusion = [(0, 0, 0), (0, 1, 0)]" "(0, 0, 0) \<noteq> ((0, 1, 0) :: Vector3)"
    "crossSection squareExtrusion = [(0, 0), (1, 0), (1, 1), (0, 1), (0, 0)]"
    "beginCap squareExtrusion" "endCap squareExtrusion"
    by (simp_all add: squareExtrusion_def)
  have u: "spine uncappedSquareExtrusion = [(0, 0, 0), (0, 1, 0)]"
    "(0, 0, 0) \<noteq> ((0, 1, 0) :: Vector3)"
    "crossSection uncappedSquareExtrusion = [(0, 0), (1, 0), (1, 1), (0, 1), (0, 0)]"
    "\<not> beginCap uncappedSquareExtrusion" "\<not> endCap uncappedSquareExtrusion"
    by (simp_all add: uncappedSquareExtrusion_def)
  from square_extrusion_triangles [OF e(1-3), of newMeshGenerator fanTriangulator False]
    square_extrusion_triangles [OF u(1-3), of newMeshGenerator fanTriangulator False] e u
  show ?thesis
    by (auto simp: fan_4 capTriangles_def)
qed

section \<open>Texture coordinates of the caps\<close>

text \<open>
  C7.  The cap texture coordinates are to be the cross-section points normalised by the
  bounding box of the cross-section, and so to lie in \<open>[0, 1]\<close>.  The loop that
  computes the box takes the minimum for \<^verbatim>\<open>zmin\<close> against \<^verbatim>\<open>xmin\<close>, so that
  \<^verbatim>\<open>zmin\<close> ends as the smaller of \<^verbatim>\<open>xmin\<close> and the last \<open>z\<close>.  For the square
  with the corners \<open>(1, 2)\<close>, \<open>(3, 2)\<close>, \<open>(3, 0)\<close>, \<open>(1, 0)\<close> it ends as 1, not
  0, and the corner \<open>(3, 0)\<close> gets the begin cap coordinate \<open>(1, -1)\<close>.  The ten
  coordinates after the ten of the side surface are the two cap blocks.
\<close>

theorem extrusion_cap_uv_of_shifted_square:
  "generateExtrusion newMeshGenerator fanTriangulator shiftedSquareExtrusion True \<noteq> None
   \<and> drop 10 (texCoords (the (generateExtrusion newMeshGenerator fanTriangulator
        shiftedSquareExtrusion True)))
     = [(0, 1), (1, 1), (1, -1), (0, -1), (0, 1),  (1, 1), (0, 1), (0, -1), (1, -1), (1, 1)]"
proof -
  let ?e = "shiftedSquareExtrusion"
  have e: "spine ?e = [(0, 0, 0), (0, 1, 0)]" "(0, 0, 0) \<noteq> ((0, 1, 0) :: Vector3)"
    "crossSection ?e = [(1, 2), (3, 2), (3, 0), (1, 0), (1, 2)]" "beginCap ?e" "endCap ?e"
    by (simp_all add: shiftedSquareExtrusion_def)
  obtain M where "extrudeMesh newMeshGenerator fanTriangulator ?e True 2 4 False True
     = generateTextureCoordinateForExtrusion M (crossSection ?e) (spine ?e) 2 2 4"
    using extrudeMesh_texture [OF e(4,5)] by blast
  with generateExtrusion_square [OF e(1-3), of newMeshGenerator fanTriangulator True]
    shifted_square_cap_uv [of M] e(1,3)
  show ?thesis by simp
qed

section \<open>Crease angles\<close>

text \<open>
  C8 (amended).  With normal generation enabled, the normal generator is called with
  crease angle 0 by the box, \<open>\<pi>/2\<close> by the cylinder, the cone and the capsule, \<open>\<pi>\<close>
  by the sphere and the torus, and with the crease angle of the descriptor by the
  elevation grid and the extrusion.  The disc does not call the normal generator: it
  writes the one normal \<open>(0, 0, 1)\<close> itself, and every normal index is 0.
\<close>

theorem crease_angle_of_each_generator:
  assumes "isNormalGenerationEnabled g"
  shows "(\<forall>m. generateBox g sz tc = Some m \<longrightarrow> normalsCreaseAngle m = Some 0)
    \<and> (\<forall>m. generateSphere g r tc = Some m \<longrightarrow> normalsCreaseAngle m = Some pi)
    \<and> (\<forall>m. generateCylinder g r h b t s tc = Some m \<longrightarrow> normalsCreaseAngle m = Some (pi / 2))
    \<and> (\<forall>m. generateCone g r h b s tc = Some m \<longrightarrow> normalsCreaseAngle m = Some (pi / 2))
    \<and> (\<forall>m. generateCapsule g r h = Some m \<longrightarrow> normalsCreaseAngle m = Some (pi / 2))
    \<and> (\<forall>m. generateTorus_arc g r c ba ea = Some m \<longrightarrow> normalsCreaseAngle m = Some pi)
    \<and> (\<forall>m. generateElevationGrid g grid tc = Some m
           \<longrightarrow> normalsCreaseAngle m = Some (creaseAngle' grid))
    \<and> (\<forall>m. generateExtrusion g tri e tc = Some m \<longrightarrow> normalsCreaseAngle m = Some (creaseAngle e))
    \<and> (\<forall>m. generateDisc g r ir = Some m
           \<longrightarrow> normalsCreaseAngle m = None \<and> normals m = [(0, 0, 1)] \<and> set (normalIndices m) \<subseteq> {0})"
  by (intro conjI allI impI)
    (simp_all add: box_crease [OF assms] sphere_crease [OF assms] cylinder_crease [OF assms]
      cone_crease [OF assms] capsule_crease [OF assms] torus_crease [OF assms]
      grid_crease [OF assms] extrusion_crease [OF assms] generateDisc_normals)

theorem crease_angle_of_each_generator_witness:
  "isNormalGenerationEnabled newMeshGenerator
    \<and> normalsCreaseAngle (the (generateBox newMeshGenerator (2, 2, 2) False)) = Some 0
    \<and> normalsCreaseAngle (the (generateSphere newMeshGenerator 2 False)) = Some pi
    \<and> normalsCreaseAngle (the (generateCylinder newMeshGenerator 2 1 True True True False)) = Some (pi / 2)
    \<and> normalsCreaseAngle (the (generateCone newMeshGenerator 2 1 True True False)) = Some (pi / 2)
    \<and> normalsCreaseAngle (the (generateCapsule newMeshGenerator 2 1)) = Some (pi / 2)
    \<and> normalsCreaseAngle (the (generateTorus_arc newMeshGenerator 2 1 0 pi)) = Some pi
    \<and> normalsCreaseAngle (the (generateElevationGrid newMeshGenerator (unitGrid True) False)) = Some 0
    \<and> normalsCreaseAngle (the (generateDisc newMeshGenerator 2 1)) = None"
proof -
  let ?g = "newMeshGenerator"
  have en: "isNormalGenerationEnabled ?g" and d: "divisionNumber ?g = 20"
    by (simp_all add: newMeshGenerator_def defaultDivisionNumber_def)
  note w = crease_angle_of_each_generator [OF en, where sz = "(2, 2, 2)" and tc = False
      and r = 2 and h = 1 and b = True and t = True and s = True and c = 1 and ba = 0 and ea = pi
      and grid = "unitGrid True" and ir = 1]
  obtain m1 where m1: "generateBox ?g (2, 2, 2) False = Some m1"
    using generateBox_None_iff [of ?g "(2, 2, 2)" False] by (auto simp: vx_def vy_def vz_def)
  obtain m2 where m2: "generateSphere ?g 2 False = Some m2"
    using generateSphere_None_iff [of ?g 2 False] d by auto
  obtain m3 where m3: "generateCylinder ?g 2 1 True True True False = Some m3"
    using generateCylinder_None_iff [of ?g 2 1 True True True False] by auto
  obtain m4 where m4: "generateCone ?g 2 1 True True False = Some m4"
    using generateCone_None_iff [of ?g 2 1 True True False] by auto
  obtain m5 where m5: "generateCapsule ?g 2 1 = Some m5"
    using generateCapsule_None_iff [of ?g 2 1] by auto
  obtain m6 where m6: "generateTorus_arc ?g 2 1 0 pi = Some m6"
    using generateTorus_arc_not_None [of ?g 2 1 0 pi] by auto
  obtain m7 where m7: "generateElevationGrid ?g (unitGrid True) False = Some m7"
    using generateElevationGrid_None_iff [of ?g "unitGrid True" False]
    by (auto simp: unitGrid_def)
  obtain m8 where m8: "generateDisc ?g 2 1 = Some m8"
    using generateDisc_None_iff [of ?g 2 1] by auto
  have g7: "creaseAngle' (unitGrid True) = 0" by (simp add: unitGrid_def)
  from w m1 m2 m3 m4 m5 m6 m7 m8 g7 en show ?thesis by simp
qed

text \<open>
  C8 as stated fails for the elevation grid and for the disc: a grid whose descriptor
  has crease angle 0 has its normals generated with 0, not with \<open>\<pi>/2\<close>, and the disc
  never reaches the normal generator.
\<close>

theorem crease_angle_counterexample:
  "isNormalGenerationEnabled newMeshGenerator
    \<and> generateElevationGrid newMeshGenerator (unitGrid True) False \<noteq> None
    \<and> normalsCreaseAngle (the (generateElevationGrid newMeshGenerator (unitGrid True) False))
        \<noteq> Some (pi / 2)
    \<and> generateDisc newMeshGenerator 2 1 \<noteq> None
    \<and> normalsCreaseAngle (the (generateDisc newMeshGenerator 2 1)) \<noteq> Some 0"
proof -
  let ?g = "newMeshGenerator"
  have en: "isNormalGenerationEnabled ?g"
    by (simp add: newMeshGenerator_def)
  obtain m7 where m7: "generateElevationGrid ?g (unitGrid True) False = Some m7"
    using generateElevationGrid_None_iff [of ?g "unitGrid True" False]
    by (auto simp: unitGrid_def)
  obtain m8 where m8: "generateDisc ?g 2 1 = Some m8"
    using generateDisc_None_iff [of ?g 2 1] by auto
  have "normalsCreaseAngle m7 = Some 0"
    using grid_crease [OF en m7] by (simp add: unitGrid_def)
  moreover have "normalsCreaseAngle m8 = None"
    using generateDisc_normals [OF m8] by simp
  ultimately show ?thesis using en m7 m8 by simp
qed

section \<open>Triangles of the elevation grid\<close>

text \<open>
  C9 (amended).  For a grid whose height array has \<open>xDimension * zDimension\<close> entries,
  \<open>generateElevationGrid\<close> emits two triangles per grid cell, row by row.  Both values
  of \<open>ccw\<close> split the cell along the same diagonal, from the corner \<open>(x, z)\<close> to
  the corner \<open>(x + 1, z + 1)\<close>; the flag exchanges the second and the third vertex of
  each of the two triangles, which reverses their winding.
\<close>

theorem elevation_grid_triangles:
  assumes "xDimension grid * zDimension grid = int (length (height grid))"
  shows "\<exists>m. generateElevationGrid g grid tc = Some m
    \<and> triangleVertices m = gridTriangles (ccw grid) (xDimension grid) (zDimension grid)
    \<and> numTriangles m = 2 * (nat (xDimension grid - 1) * nat (zDimension grid - 1))
    \<and> (\<forall>x z. gridCellTriangles True (xDimension grid) x z =
          [x + z * xDimension grid, x + (z + 1) * xDimension grid, (x + 1) + (z + 1) * xDimension grid,
           x + z * xDimension grid, (x + 1) + (z + 1) * xDimension grid, (x + 1) + z * xDimension grid]
        \<and> gridCellTriangles False (xDimension grid) x z =
          [x + z * xDimension grid, (x + 1) + (z + 1) * xDimension grid, x + (z + 1) * xDimension grid,
           x + z * xDimension grid, (x + 1) + z * xDimension grid, (x + 1) + (z + 1) * xDimension grid])"
proof -
  obtain m where m: "generateElevationGrid g grid tc = Some m"
    "triangleVertices m = gridTriangles (ccw grid) (xDimension grid) (zDimension grid)"
    using generateElevationGrid_closed_form [OF assms] by blast
  then have "numTriangles m = 2 * (nat (xDimension grid - 1) * nat (zDimension grid - 1))"
    by (simp add: numTriangles_def length_gridTriangles)
  with m show ?thesis
    by (simp add: gridCellTriangles_def Let_def)
qed

theorem elevation_grid_triangles_witness:
  "xDimension (unitGrid False) * zDimension (unitGrid False) = int (length (height (unitGrid False)))
   \<and> triangleVertices (the (generateElevationGrid newMeshGenerator (unitGrid False) False))
       = [0, 3, 2, 0, 1, 3]
   \<and> numTriangles (the (generateElevationGrid newMeshGenerator (unitGrid False) False)) = 2"
proof -
  have v: "xDimension (unitGrid False) * zDimension (unitGrid False)
      = int (length (height (unitGrid False)))"
    by (simp add: unitGrid_def)
  have "gridTriangles False 2 2 = [0, 3, 2, 0, 1, 3]"
    by (simp add: gridTriangles_def gridCellTriangles_def)
  with elevation_grid_triangles [OF v, of newMeshGenerator False] v show ?thesis
    by (auto simp: unitGrid_def)
qed

text \<open>
  C9 as stated fails: in the one cell of a 2 by 2 grid the first triangle is
  \<open>(0, 2, 3)\<close> with \<open>ccw\<close> and \<open>(0, 3, 2)\<close> without.  Both have the corners 0 and 3
  of the same diagonal, and neither has the corner 1 of the other diagonal.
\<close>

theorem elevation_grid_diagonal_counterexample:
  "take 3 (triangleVertices (the (generateElevationGrid newMeshGenerator (unitGrid True) False)))
     = [0, 2, 3]
   \<and> take 3 (triangleVertices (the (generateElevationGrid newMeshGenerator (unitGrid False) False)))
     = [0, 3, 2]"
proof -
  have v: "xDimension (unitGrid c) * zDimension (unitGrid c) = int (length (height (unitGrid c)))"
    for c by (simp add: unitGrid_def)
  have t: "gridTriangles True 2 2 = [0, 2, 3, 0, 3, 1]" "gridTriangles False 2 2 = [0, 3, 2, 0, 1, 3]"
    by (simp_all add: gridTriangles_def gridCellTriangles_def)
  from generateElevationGrid_closed_form [OF v [of True], of newMeshGenerator False]
    generateElevationGrid_closed_form [OF v [of False], of newMeshGenerator False] t
  show ?thesis by (auto simp: unitGrid_def)
qed

end
